theory Spec2Isabelle
  imports Complex_Main "HOL-Library.AList"
begin

section \<open>Python strings\<close>

text \<open>
  The program is \<^verbatim>\<open>QueryNest/backend/model.py\<close>. A Python \<^verbatim>\<open>str\<close> is modelled as a
  \<^typ>\<open>string\<close> whose characters are the code points below 256; the character tables
  below are Python's \<^verbatim>\<open>str.isspace\<close>, \<^verbatim>\<open>str.isdigit\<close> and \<^verbatim>\<open>str.lower\<close>
  restricted to that range.
\<close>

definition whitespace_chars :: string where
  "whitespace_chars = [CHR 0x09, CHR 0x0A, CHR 0x0B, CHR 0x0C, CHR 0x0D,
     CHR 0x1C, CHR 0x1D, CHR 0x1E, CHR 0x1F, CHR 0x20, CHR 0x85, CHR 0xA0]"

definition is_space :: "char \<Rightarrow> bool" where
  "is_space c = (c \<in> set whitespace_chars)"

definition is_digit :: "char \<Rightarrow> bool" where
  "is_digit c = (c \<in> set ''0123456789'')"

text \<open>
  \<^verbatim>\<open>c.lower()\<close> on one character, read off the bits of the code point (lowest bit
  first): the capital letters \<^verbatim>\<open>A\<close> to \<^verbatim>\<open>Z\<close> (0x41 to 0x5A) and the capital letters
  of Latin-1 (0xC0 to 0xDE without the multiplication sign 0xD7) move up by 0x20, every
  other character stays. \<open>upper_chars\<close> and \<open>lower_chars\<close> list the two alphabets.
\<close>

fun char_lower :: "char \<Rightarrow> char" where
  "char_lower (Char b0 b1 b2 b3 b4 b5 b6 b7) =
     (if b6 \<and> \<not> b5 \<and>
         (if b7 then \<not> (b4 \<and> \<not> b3 \<and> b2 \<and> b1 \<and> b0) \<and> \<not> (b4 \<and> b3 \<and> b2 \<and> b1 \<and> b0)
          else (b0 \<or> b1 \<or> b2 \<or> b3 \<or> b4) \<and> \<not> (b4 \<and> b3 \<and> (b2 \<or> (b1 \<and> b0))))
      then Char b0 b1 b2 b3 b4 True b6 b7
      else Char b0 b1 b2 b3 b4 b5 b6 b7)"

definition upper_chars :: string where
  "upper_chars = ''ABCDEFGHIJKLMNOPQRSTUVWXYZ'' @
     [CHR 0xC0, CHR 0xC1, CHR 0xC2, CHR 0xC3, CHR 0xC4, CHR 0xC5, CHR 0xC6, CHR 0xC7,
      CHR 0xC8, CHR 0xC9, CHR 0xCA, CHR 0xCB, CHR 0xCC, CHR 0xCD, CHR 0xCE, CHR 0xCF,
      CHR 0xD0, CHR 0xD1, CHR 0xD2, CHR 0xD3, CHR 0xD4, CHR 0xD5, CHR 0xD6,
      CHR 0xD8, CHR 0xD9, CHR 0xDA, CHR 0xDB, CHR 0xDC, CHR 0xDD, CHR 0xDE]"

definition lower_chars :: string where
  "lower_chars = ''abcdefghijklmnopqrstuvwxyz'' @
     [CHR 0xE0, CHR 0xE1, CHR 0xE2, CHR 0xE3, CHR 0xE4, CHR 0xE5, CHR 0xE6, CHR 0xE7,
      CHR 0xE8, CHR 0xE9, CHR 0xEA, CHR 0xEB, CHR 0xEC, CHR 0xED, CHR 0xEE, CHR 0xEF,
      CHR 0xF0, CHR 0xF1, CHR 0xF2, CHR 0xF3, CHR 0xF4, CHR 0xF5, CHR 0xF6,
      CHR 0xF8, CHR 0xF9, CHR 0xFA, CHR 0xFB, CHR 0xFC, CHR 0xFD, CHR 0xFE]"

text \<open>\<^verbatim>\<open>s.lower()\<close>\<close>

definition py_lower :: "string \<Rightarrow> string" where
  "py_lower s = map char_lower s"

text \<open>\<^verbatim>\<open>s.strip()\<close>: whitespace removed at both ends.\<close>

definition py_lstrip :: "string \<Rightarrow> string" where
  "py_lstrip s = dropWhile is_space s"

definition py_strip :: "string \<Rightarrow> string" where
  "py_strip s = rev (dropWhile is_space (rev (dropWhile is_space s)))"

text \<open>
  \<^verbatim>\<open>s.split()\<close> with no argument: the maximal runs of characters that are not
  whitespace, in order; \<open>cur\<close> is the word being read.
\<close>

fun split_words :: "string \<Rightarrow> string \<Rightarrow> string list" where
  "split_words cur [] = (if cur = [] then [] else [cur])"
| "split_words cur (c # cs) =
     (if is_space c then (if cur = [] then split_words [] cs else cur # split_words [] cs)
      else split_words (cur @ [c]) cs)"

definition py_split :: "string \<Rightarrow> string list" where
  "py_split s = split_words [] s"

text \<open>\<^verbatim>\<open>sep.join(xs)\<close>\<close>

fun py_join :: "string \<Rightarrow> string list \<Rightarrow> string" where
  "py_join sep [] = []"
| "py_join sep [x] = x"
| "py_join sep (x # y # ys) = x @ sep @ py_join sep (y # ys)"

text \<open>\<^verbatim>\<open>xs[i:j]\<close> for \<open>0 \<le> i\<close>, \<open>0 \<le> j\<close>.\<close>

definition py_slice :: "'a list \<Rightarrow> nat \<Rightarrow> nat \<Rightarrow> 'a list" where
  "py_slice xs i j = take (j - i) (drop i xs)"

text \<open>\<^verbatim>\<open>needle in hay\<close> on strings.\<close>

fun py_contains :: "string \<Rightarrow> string \<Rightarrow> bool" where
  "py_contains needle [] = (needle = [])"
| "py_contains needle (c # cs) =
     (take (length needle) (c # cs) = needle \<or> py_contains needle cs)"

text \<open>\<^verbatim>\<open>s.endswith(('.', '!', '?'))\<close>\<close>

definition ends_with_terminal :: "string \<Rightarrow> bool" where
  "ends_with_terminal s = (s \<noteq> [] \<and> last s \<in> set ''.!?'')"

text \<open>\<^verbatim>\<open>str(n)\<close> for a natural number.\<close>

definition digit_char :: "nat \<Rightarrow> char" where
  "digit_char d = ''0123456789'' ! d"

fun str_nat_fuel :: "nat \<Rightarrow> nat \<Rightarrow> string" where
  "str_nat_fuel 0 n = []"
| "str_nat_fuel (Suc f) n =
     (if n < 10 then [digit_char n] else str_nat_fuel f (n div 10) @ [digit_char (n mod 10)])"

definition str_nat :: "nat \<Rightarrow> string" where
  "str_nat n = str_nat_fuel (Suc n) n"

section \<open>Exceptions and values\<close>

text \<open>
  The exceptions the modelled code can meet; all are subclasses of Python's
  \<^verbatim>\<open>Exception\<close>. \<open>CollaboratorError\<close> is any exception raised by one of the loaded
  models (the embedding model, the question-answering pipeline, the summarisation
  pipeline, the sentence tokenizer). The string is \<^verbatim>\<open>str(e)\<close>.
\<close>

datatype py_error =
    ValueError string
  | IndexError string
  | KeyError string
  | AttributeError string
  | CollaboratorError string

fun err_str :: "py_error \<Rightarrow> string" where
  "err_str (ValueError m) = m"
| "err_str (IndexError m) = m"
| "err_str (KeyError m) = m"
| "err_str (AttributeError m) = m"
| "err_str (CollaboratorError m) = m"

text \<open>The values stored in the dictionaries the program builds.\<close>

datatype py_val = VNone | VBool bool | VInt int | VFloat real | VStr string

type_synonym py_dict = "(string \<times> py_val) list"

text \<open>\<^verbatim>\<open>d[k] = v\<close>: a new key is appended, an existing one keeps its place.\<close>

definition dict_set :: "py_dict \<Rightarrow> string \<Rightarrow> py_val \<Rightarrow> py_dict" where
  "dict_set d k v = AList.update k v d"

definition dict_keys :: "py_dict \<Rightarrow> string list" where
  "dict_keys d = map fst d"

text \<open>\<^verbatim>\<open>d[k]\<close> raises \<^verbatim>\<open>KeyError\<close> on a missing key.\<close>

definition dict_get :: "py_dict \<Rightarrow> string \<Rightarrow> py_error + py_val" where
  "dict_get d k = (case map_of d k of None \<Rightarrow> Inl (KeyError k) | Some v \<Rightarrow> Inr v)"

section \<open>Chunker\<close>

text \<open>\<^verbatim>\<open>range(i, n, step)\<close> for a positive step.\<close>

function py_range :: "nat \<Rightarrow> nat \<Rightarrow> nat \<Rightarrow> nat list" where
  "py_range i n step = (if i < n \<and> 0 < step then i # py_range (i + step) n step else [])"
  by pat_completeness auto
termination
  by (relation "measure (\<lambda>(i, n, step). n - i)") auto

declare py_range.simps [simp del]

text \<open>
  \<^verbatim>\<open>
  def chunk_text(text: str, chunk_size=500) -> list[str]:
      if not text:
          return []
      words = text.split()
      chunks = [' '.join(words[i:i+chunk_size]) for i in range(0, len(words), chunk_size)]
      return chunks
  \<close>
  \<^verbatim>\<open>range\<close> raises \<^verbatim>\<open>ValueError\<close> on a zero step and is empty on a negative one.
\<close>

definition chunk_text :: "string \<Rightarrow> int \<Rightarrow> py_error + string list" where
  "chunk_text text chunk_size =
     (if text = [] then Inr []
      else let words = py_split text in
        if chunk_size = 0 then Inl (ValueError ''range() arg 3 must not be zero'')
        else if chunk_size < 0 then Inr []
        else Inr (map (\<lambda>i. py_join '' '' (py_slice words i (i + nat chunk_size)))
                      (py_range 0 (length words) (nat chunk_size))))"

section \<open>Regular expressions\<close>

text \<open>
  The fragment of Python's \<^verbatim>\<open>re\<close> that the program's patterns use: literals, the classes
  \<^verbatim>\<open>\s\<close> and \<^verbatim>\<open>\d\<close>, bracket sets and ranges, greedy \<^verbatim>\<open>*\<close> and \<^verbatim>\<open>+\<close> on a single
  class, sequence, alternation, numbered groups and a one-character look-behind. The
  flag \<open>ic\<close> is \<^verbatim>\<open>re.IGNORECASE\<close>.

  The heading patterns are written with \<^verbatim>\<open>(?i)\<close> in front of every alternative and
  then joined; up to Python 3.10 an inline flag anywhere in the pattern switches the
  flag on for the whole pattern (with a deprecation warning), and that is what is
  modelled. (From Python 3.11 on \<^verbatim>\<open>re\<close> rejects such a pattern.)
\<close>

datatype citem = ILit char | ISpace | IDigit | IRange char char

type_synonym cclass = "citem list"

definition in_range :: "char \<Rightarrow> char \<Rightarrow> char \<Rightarrow> bool" where
  "in_range lo hi c = ((of_char lo :: nat) \<le> of_char c \<and> (of_char c :: nat) \<le> of_char hi)"

fun item_match :: "bool \<Rightarrow> citem \<Rightarrow> char \<Rightarrow> bool" where
  "item_match ic (ILit l) c = (if ic then char_lower c = char_lower l else c = l)"
| "item_match ic ISpace c = is_space c"
| "item_match ic IDigit c = is_digit c"
| "item_match ic (IRange lo hi) c =
     (in_range lo hi c \<or> (ic \<and> in_range lo hi (char_lower c)))"

definition class_match :: "bool \<Rightarrow> cclass \<Rightarrow> char \<Rightarrow> bool" where
  "class_match ic cl c = list_ex (\<lambda>it. item_match ic it c) cl"

datatype regex =
    Eps
  | Chr cclass
  | Star cclass
  | Plus cclass
  | Seq regex regex
  | Alt regex regex
  | Group nat regex
  | LookBehind cclass

text \<open>
  A matcher state: the groups captured so far, the character before the current
  position (for the look-behind) and the input that is left.
\<close>

type_synonym mstate = "(nat \<times> string) list \<times> char option \<times> string"

text \<open>
  The ways a greedy repetition of one class can stop, longest first: the order in which
  a backtracking matcher tries them.
\<close>

fun star_runs :: "bool \<Rightarrow> cclass \<Rightarrow> char option \<Rightarrow> string \<Rightarrow> (char option \<times> string) list" where
  "star_runs ic cl p [] = [(p, [])]"
| "star_runs ic cl p (c # cs) =
     (if class_match ic cl c then star_runs ic cl (Some c) cs else []) @ [(p, c # cs)]"

text \<open>
  All the ways the expression matches at the current position, in the order the
  backtracking matcher finds them; the head of the list is the match that Python
  reports.
\<close>

fun rmatch :: "bool \<Rightarrow> regex \<Rightarrow> mstate \<Rightarrow> mstate list" where
  "rmatch ic Eps st = [st]"
| "rmatch ic (Chr cl) (g, p, s) =
     (case s of [] \<Rightarrow> [] | c # cs \<Rightarrow> if class_match ic cl c then [(g, Some c, cs)] else [])"
| "rmatch ic (Star cl) (g, p, s) = map (\<lambda>(p', s'). (g, p', s')) (star_runs ic cl p s)"
| "rmatch ic (Plus cl) (g, p, s) =
     (case s of [] \<Rightarrow> []
      | c # cs \<Rightarrow> if class_match ic cl c
                 then map (\<lambda>(p', s'). (g, p', s')) (star_runs ic cl (Some c) cs) else [])"
| "rmatch ic (Seq a b) st = concat (map (rmatch ic b) (rmatch ic a st))"
| "rmatch ic (Alt a b) st = rmatch ic a st @ rmatch ic b st"
| "rmatch ic (Group n r) (g, p, s) =
     map (\<lambda>(g', p', s'). (AList.update n (take (length s - length s') s) g', p', s'))
         (rmatch ic r (g, p, s))"
| "rmatch ic (LookBehind cl) (g, p, s) =
     (case p of None \<Rightarrow> [] | Some c \<Rightarrow> if class_match ic cl c then [(g, p, s)] else [])"

text \<open>A match object: \<^verbatim>\<open>m.start()\<close>, \<^verbatim>\<open>m.end()\<close>, \<^verbatim>\<open>m.group(0)\<close> and the groups.\<close>

record re_match =
  m_start :: nat
  m_end :: nat
  m_text :: string
  m_groups :: "(nat \<times> string) list"

text \<open>\<^verbatim>\<open>m.group(n)\<close>; \<open>None\<close> is Python's \<^verbatim>\<open>None\<close> for a group that took no part.\<close>

definition m_group :: "re_match \<Rightarrow> nat \<Rightarrow> string option" where
  "m_group m n = map_of (m_groups m) n"

text \<open>
  The first way to match at the current position; with \<open>adv\<close> (the scanner has just
  reported an empty match here) the first way that consumes a character.
\<close>

fun first_way :: "bool \<Rightarrow> nat \<Rightarrow> mstate list \<Rightarrow> mstate option" where
  "first_way adv n [] = None"
| "first_way adv n ((g, p, s') # rest) =
     (if adv \<and> \<not> length s' < n then first_way adv n rest else Some (g, p, s'))"

definition match_here :: "bool \<Rightarrow> regex \<Rightarrow> bool \<Rightarrow> char option \<Rightarrow> string \<Rightarrow> mstate option" where
  "match_here ic r adv prev s = first_way adv (length s) (rmatch ic r ([], prev, s))"

text \<open>
  The scan of \<^verbatim>\<open>re.search\<close>: the leftmost position at or after \<open>pos\<close> where the
  expression matches. The result is the match and the state after it.
\<close>

fun search_from :: "bool \<Rightarrow> regex \<Rightarrow> bool \<Rightarrow> nat \<Rightarrow> char option \<Rightarrow> string
    \<Rightarrow> (re_match \<times> char option \<times> string) option" where
  "search_from ic r adv pos prev [] =
     (case match_here ic r adv prev [] of
        None \<Rightarrow> None
      | Some (g, p', s') \<Rightarrow>
          Some (\<lparr>m_start = pos, m_end = pos, m_text = [], m_groups = g\<rparr>, p', s'))"
| "search_from ic r adv pos prev (c # cs) =
     (case match_here ic r adv prev (c # cs) of
        None \<Rightarrow> search_from ic r False (Suc pos) (Some c) cs
      | Some (g, p', s') \<Rightarrow>
          (let k = length (c # cs) - length s' in
           Some (\<lparr>m_start = pos, m_end = pos + k, m_text = take k (c # cs), m_groups = g\<rparr>,
                 p', s')))"

text \<open>\<^verbatim>\<open>re.search(pattern, s)\<close>\<close>

definition re_search :: "bool \<Rightarrow> regex \<Rightarrow> string \<Rightarrow> re_match option" where
  "re_search ic r s = map_option fst (search_from ic r False 0 None s)"

text \<open>
  \<^verbatim>\<open>re.finditer\<close>: the matches from left to right, each search starting where the match
  before it ended. After an empty match the scanner searches again from the same
  position for a match that is not empty there.
\<close>

function finditer_from :: "bool \<Rightarrow> regex \<Rightarrow> bool \<Rightarrow> nat \<Rightarrow> char option \<Rightarrow> string
    \<Rightarrow> re_match list" where
  "finditer_from ic r adv pos prev s =
     (case search_from ic r adv pos prev s of
        None \<Rightarrow> []
      | Some (m, p', s') \<Rightarrow>
          m # (if length s' < length s
               then finditer_from ic r (m_end m = m_start m) (m_end m) p' s'
               else if \<not> adv then finditer_from ic r True pos prev s
               else []))"
  by pat_completeness auto
termination
  by (relation "measure (\<lambda>(ic, r, adv, pos, prev, s). 2 * length s + (if adv then 0 else 1))")
     auto

declare finditer_from.simps [simp del]

definition re_finditer :: "bool \<Rightarrow> regex \<Rightarrow> string \<Rightarrow> re_match list" where
  "re_finditer ic r s = finditer_from ic r False 0 None s"

text \<open>
  The pieces of the text between the matches: what \<^verbatim>\<open>re.split\<close> returns for a pattern
  without groups, and what \<^verbatim>\<open>re.sub\<close> keeps.
\<close>

fun pieces_between :: "string \<Rightarrow> nat \<Rightarrow> re_match list \<Rightarrow> string list" where
  "pieces_between text pos [] = [drop pos text]"
| "pieces_between text pos (m # ms) =
     py_slice text pos (m_start m) # pieces_between text (m_end m) ms"

definition re_split :: "bool \<Rightarrow> regex \<Rightarrow> string \<Rightarrow> string list" where
  "re_split ic r s = pieces_between s 0 (re_finditer ic r s)"

text \<open>\<^verbatim>\<open>re.sub(pattern, repl, s)\<close> for a replacement without back-references.\<close>

definition re_sub :: "bool \<Rightarrow> regex \<Rightarrow> string \<Rightarrow> string \<Rightarrow> string" where
  "re_sub ic r repl s = py_join repl (re_split ic r s)"

text \<open>A literal word, and the patterns' building blocks.\<close>

fun lit :: "string \<Rightarrow> regex" where
  "lit [] = Eps"
| "lit [c] = Chr [ILit c]"
| "lit (c # cs) = Seq (Chr [ILit c]) (lit cs)"

fun seqs :: "regex list \<Rightarrow> regex" where
  "seqs [] = Eps"
| "seqs [r] = r"
| "seqs (r # rs) = Seq r (seqs rs)"

fun alts :: "regex list \<Rightarrow> regex" where
  "alts [] = Eps"
| "alts [r] = r"
| "alts (r # rs) = Alt r (alts rs)"

text \<open>\<^verbatim>\<open>(\d+|[a-z])\<close> as group \<open>n\<close>.\<close>

definition id_group :: "nat \<Rightarrow> regex" where
  "id_group n = Group n (Alt (Plus [IDigit]) (Chr [IRange CHR ''a'' CHR ''z'']))"

section \<open>Section detection\<close>

text \<open>
  The seven heading patterns of \<^verbatim>\<open>detect_sections\<close>, each with its identifier group
  numbered \<open>g\<close>:
  \<^verbatim>\<open>
  r'(?i)problem\s+statement\s+(\d+|[a-z])',
  r'(?i)problem\s+statement[\s\-]*(\d+|[a-z])',
  r'(?i)problem\s*(\d+|[a-z])\s*[:\.]+',
  r'(?i)ps\s*[\-\.\s]*(\d+|[a-z])',
  r'(?i)section\s+(\d+|[a-z])\s*[:\.]*',
  r'(?i)chapter\s+(\d+|[a-z])',
  r'(?i)part\s+(\d+|[a-z])'
  \<close>
\<close>

definition heading_patterns :: "(nat \<Rightarrow> regex) list" where
  "heading_patterns =
    [\<lambda>g. seqs [lit ''problem'', Plus [ISpace], lit ''statement'', Plus [ISpace], id_group g],
     \<lambda>g. seqs [lit ''problem'', Plus [ISpace], lit ''statement'',
                Star [ISpace, ILit CHR ''-''], id_group g],
     \<lambda>g. seqs [lit ''problem'', Star [ISpace], id_group g, Star [ISpace],
                Plus [ILit CHR '':'', ILit CHR ''.'']],
     \<lambda>g. seqs [lit ''ps'', Star [ISpace], Star [ILit CHR ''-'', ILit CHR ''.'', ISpace],
                id_group g],
     \<lambda>g. seqs [lit ''section'', Plus [ISpace], id_group g, Star [ISpace],
                Star [ILit CHR '':'', ILit CHR ''.'']],
     \<lambda>g. seqs [lit ''chapter'', Plus [ISpace], id_group g],
     \<lambda>g. seqs [lit ''part'', Plus [ISpace], id_group g]]"

definition section_patterns :: "regex list" where
  "section_patterns = map (\<lambda>p. p 1) heading_patterns"

text \<open>
  \<^verbatim>\<open>combined_pattern = '|'.join(f'({pattern})' for pattern in section_patterns)\<close>:
  alternative \<open>k\<close> (from 0) is group \<open>2k+1\<close> and its identifier is group \<open>2k+2\<close>.
\<close>

definition combined_pattern :: regex where
  "combined_pattern =
     alts (map (\<lambda>(k, p). Group (2 * k + 1) (p (2 * k + 2)))
               (zip [0 ..< length heading_patterns] heading_patterns))"

text \<open>
  The loop over \<^verbatim>\<open>section_patterns\<close> that reads the identifier off a title: the first
  pattern found in the title decides, and its group 1 is the identifier.
\<close>

fun first_group :: "regex list \<Rightarrow> string \<Rightarrow> string option" where
  "first_group [] title = None"
| "first_group (r # rs) title =
     (case re_search True r title of
        None \<Rightarrow> first_group rs title
      | Some m \<Rightarrow> m_group m 1)"

text \<open>Truthiness of an optional string: neither \<^verbatim>\<open>None\<close> nor empty.\<close>

fun truthy :: "string option \<Rightarrow> bool" where
  "truthy None = False"
| "truthy (Some s) = (s \<noteq> [])"

fun opt_val :: "string option \<Rightarrow> py_val" where
  "opt_val None = VNone"
| "opt_val (Some s) = VStr s"

text \<open>The body of the loop over the matches, for one match and the end of its section.\<close>

definition heading_section :: "string \<Rightarrow> re_match \<Rightarrow> nat \<Rightarrow> py_dict" where
  "heading_section text m end_idx =
     (let title = py_strip (m_text m);
          section_num = first_group section_patterns title;
          normalized_title = py_lower title;
          std_title =
            (if py_contains ''problem statement'' normalized_title
                \<or> ''ps'' = take 2 normalized_title
             then (if truthy section_num then ''problem statement '' @ the section_num
                   else title)
             else title);
          start_idx = m_start m;
          content_start = m_end m;
          content = py_strip (py_slice text content_start end_idx)
      in [(''title'', VStr title),
          (''std_title'', VStr std_title),
          (''section_num'', opt_val section_num),
          (''start_idx'', VInt (int start_idx)),
          (''end_idx'', VInt (int end_idx)),
          (''content'', VStr content)])"

text \<open>
  \<^verbatim>\<open>for i, match in enumerate(matches)\<close>, with
  \<^verbatim>\<open>end_idx = matches[i+1].start() if i < len(matches)-1 else len(text)\<close>.
\<close>

fun heading_sections :: "string \<Rightarrow> re_match list \<Rightarrow> py_dict list" where
  "heading_sections text [] = []"
| "heading_sections text (m # ms) =
     heading_section text m (case ms of [] \<Rightarrow> length text | m' # _ \<Rightarrow> m_start m')
       # heading_sections text ms"

text \<open>\<^verbatim>\<open>text.find(sub)\<close>: the first index where \<open>sub\<close> occurs, or -1.\<close>

fun find_from :: "nat \<Rightarrow> string \<Rightarrow> string \<Rightarrow> int" where
  "find_from i sub [] = (if sub = [] then int i else -1)"
| "find_from i sub (c # cs) =
     (if take (length sub) (c # cs) = sub then int i else find_from (Suc i) sub cs)"

definition py_find :: "string \<Rightarrow> string \<Rightarrow> int" where
  "py_find text sub = find_from 0 sub text"

text \<open>
  The paragraph split that follows the loop in the source (lines 373 to 388), entered
  when the loop has left \<^verbatim>\<open>sections\<close> empty.
\<close>

fun paragraph_sections :: "string \<Rightarrow> nat \<Rightarrow> string list \<Rightarrow> py_dict list" where
  "paragraph_sections text i [] = []"
| "paragraph_sections text i (para # paras) =
     (if length (py_strip para) > 100
      then [[(''title'', VStr (''Section '' @ str_nat (i + 1))),
             (''std_title'', VStr (''section '' @ str_nat (i + 1))),
             (''section_num'', VStr (str_nat (i + 1))),
             (''start_idx'', VInt (py_find text para)),
             (''end_idx'', VInt (py_find text para + int (length para))),
             (''content'', VStr para)]]
      else [])
     @ paragraph_sections text (Suc i) paras"

definition paragraph_fallback :: "string \<Rightarrow> py_dict list" where
  "paragraph_fallback text =
     (let paragraphs = re_split False
            (seqs [Chr [ILit CHR 0x0A], Star [ISpace], Chr [ILit CHR 0x0A]]) text
      in if length paragraphs > 1 then paragraph_sections text 0 paragraphs
         else [[(''title'', VStr ''Document''), (''std_title'', VStr ''document''),
                (''section_num'', VNone), (''start_idx'', VInt 0),
                (''end_idx'', VInt (int (length text))), (''content'', VStr text)]])"

text \<open>
  \<^verbatim>\<open>
  matches = list(re.finditer(combined_pattern, text))
  if not matches:
      return [{"title": "Document", "start_idx": 0, "end_idx": len(text), "content": text}]
  sections = []
  for i, match in enumerate(matches): ...
  if len(sections) == 0: ...
  return sections
  \<close>
\<close>

definition detect_sections :: "string \<Rightarrow> py_dict list" where
  "detect_sections text =
     (let matches = re_finditer True combined_pattern text in
      if matches = []
      then [[(''title'', VStr ''Document''), (''start_idx'', VInt 0),
             (''end_idx'', VInt (int (length text))), (''content'', VStr text)]]
      else let sections = heading_sections text matches in
           if length sections = 0 then paragraph_fallback text else sections)"

text \<open>
  Reading a section record: its \<^verbatim>\<open>[start_idx, end_idx)\<close> range, and the offsets that a
  list of sections covers.
\<close>

definition section_span :: "py_dict \<Rightarrow> (int \<times> int) option" where
  "section_span d =
     (case (map_of d ''start_idx'', map_of d ''end_idx'') of
        (Some (VInt a), Some (VInt b)) \<Rightarrow> Some (a, b)
      | _ \<Rightarrow> None)"

definition sec_start :: "py_dict \<Rightarrow> int option" where
  "sec_start d = map_option fst (section_span d)"

definition sec_end :: "py_dict \<Rightarrow> int option" where
  "sec_end d = map_option snd (section_span d)"

definition covered :: "py_dict list \<Rightarrow> int set" where
  "covered secs =
     (\<Union>d \<in> set secs. case section_span d of None \<Rightarrow> {} | Some (a, b) \<Rightarrow> {a ..< b})"

section \<open>Section-scoped retrieval\<close>

text \<open>
  \<^verbatim>\<open>extract_problem_statement_num_from_query\<close>, with the patterns
  \<^verbatim>\<open>
  r'(?i)problem\s+statement\s*[\-\.\s]*(\d+|[a-z])',
  r'(?i)problem\s*[\-\.\s]*(\d+|[a-z])',
  r'(?i)ps\s*[\-\.\s]*(\d+|[a-z])'
  \<close>
\<close>

definition query_patterns :: "regex list" where
  "query_patterns =
     [seqs [lit ''problem'', Plus [ISpace], lit ''statement'', Star [ISpace],
            Star [ILit CHR ''-'', ILit CHR ''.'', ISpace], id_group 1],
      seqs [lit ''problem'', Star [ISpace],
            Star [ILit CHR ''-'', ILit CHR ''.'', ISpace], id_group 1],
      seqs [lit ''ps'', Star [ISpace],
            Star [ILit CHR ''-'', ILit CHR ''.'', ISpace], id_group 1]]"

fun first_truthy_group :: "regex list \<Rightarrow> string \<Rightarrow> string option" where
  "first_truthy_group [] query = None"
| "first_truthy_group (r # rs) query =
     (case re_search True r query of
        None \<Rightarrow> first_truthy_group rs query
      | Some m \<Rightarrow> if truthy (m_group m 1) then m_group m 1
                  else first_truthy_group rs query)"

definition extract_problem_statement_num_from_query :: "string \<Rightarrow> string option" where
  "extract_problem_statement_num_from_query query = first_truthy_group query_patterns query"

text \<open>Python's \<^verbatim>\<open>a or b\<close> on optional strings.\<close>

definition py_or :: "string option \<Rightarrow> string option \<Rightarrow> string option" where
  "py_or a b = (if truthy a then a else b)"

text \<open>
  \<^verbatim>\<open>target_problem = problem_num or target_section\<close>, where \<^verbatim>\<open>problem_num\<close> is the
  identifier read off the prompt.
\<close>

definition target_problem :: "string \<Rightarrow> string option \<Rightarrow> string option" where
  "target_problem prompt target_section =
     py_or (extract_problem_statement_num_from_query prompt) target_section"

text \<open>
  A metadata record maps its keys to strings or \<^verbatim>\<open>None\<close>; ingestion writes the keys
  \<open>section\<close> and \<open>section_content\<close>.

  \<^verbatim>\<open>meta.get("section", "").lower()\<close> raises \<^verbatim>\<open>AttributeError\<close> on \<^verbatim>\<open>None\<close>.
\<close>

type_synonym meta_dict = "(string \<times> string option) list"

definition meta_title :: "meta_dict \<Rightarrow> py_error + string" where
  "meta_title meta =
     (case map_of meta ''section'' of
        None \<Rightarrow> Inr (py_lower [])
      | Some None \<Rightarrow> Inl (AttributeError ''lower'')
      | Some (Some s) \<Rightarrow> Inr (py_lower s))"

text \<open>
  The test of the exact tier for one metadata record:
  \<^verbatim>\<open>
  section_num = None
  if "section_num" in meta: section_num = meta["section_num"]
  section_match = False
  if section_num and section_num == target_problem: section_match = True
  else:
      for term in query_terms:
          if term in section_title: section_match = True; break
  \<close>
\<close>

definition exact_match :: "string \<Rightarrow> meta_dict \<Rightarrow> py_error + bool" where
  "exact_match t meta =
     (case meta_title meta of
        Inl e \<Rightarrow> Inl e
      | Inr section_title \<Rightarrow>
          (let section_num = (case map_of meta ''section_num'' of None \<Rightarrow> None | Some v \<Rightarrow> v);
               query_terms = [''problem statement '' @ t, ''ps'' @ t, ''problem '' @ t]
           in Inr (if truthy section_num \<and> section_num = Some t then True
                   else list_ex (\<lambda>term. py_contains term section_title) query_terms)))"

text \<open>The test of the broad tier for one metadata record.\<close>

definition broad_match :: "string \<Rightarrow> meta_dict \<Rightarrow> py_error + bool" where
  "broad_match t meta =
     (case meta_title meta of
        Inl e \<Rightarrow> Inl e
      | Inr section_title \<Rightarrow>
          (let broader_terms = [''statement '' @ t, ''section '' @ t, t]
           in Inr (list_ex (\<lambda>term. py_contains term section_title) broader_terms)))"

text \<open>
  One pass \<^verbatim>\<open>for i, meta in enumerate(metadata)\<close> that appends \<^verbatim>\<open>chunks[i]\<close>,
  \<^verbatim>\<open>embeddings[i]\<close> and \<^verbatim>\<open>metadata[i]\<close> for every record that passes the test; an
  index past the end of \<^verbatim>\<open>chunks\<close> or \<^verbatim>\<open>embeddings\<close> raises \<^verbatim>\<open>IndexError\<close>.
\<close>

fun tier_loop :: "(meta_dict \<Rightarrow> py_error + bool) \<Rightarrow> string list \<Rightarrow> real list list \<Rightarrow> nat
    \<Rightarrow> meta_dict list \<Rightarrow> py_error + (string \<times> real list \<times> meta_dict) list" where
  "tier_loop test chunks embeddings i [] = Inr []"
| "tier_loop test chunks embeddings i (meta # metas) =
     (case test meta of
        Inl e \<Rightarrow> Inl e
      | Inr False \<Rightarrow> tier_loop test chunks embeddings (Suc i) metas
      | Inr True \<Rightarrow>
          if \<not> i < length chunks then Inl (IndexError ''list index out of range'')
          else if \<not> i < length embeddings then Inl (IndexError ''index out of bounds'')
          else (case tier_loop test chunks embeddings (Suc i) metas of
                  Inl e \<Rightarrow> Inl e
                | Inr rest \<Rightarrow> Inr ((chunks ! i, embeddings ! i, meta) # rest)))"

text \<open>
  \<^verbatim>\<open>np.dot(query_embeddings, prompt_embedding.T).flatten()\<close>: one dot product per row;
  rows of another length than the prompt's vector raise \<^verbatim>\<open>ValueError\<close>.
\<close>

definition dot :: "real list \<Rightarrow> real list \<Rightarrow> py_error + real" where
  "dot a b = (if length a = length b then Inr (sum_list (map2 (*) a b))
              else Inl (ValueError ''shapes not aligned''))"

fun dots :: "real list list \<Rightarrow> real list \<Rightarrow> py_error + real list" where
  "dots [] v = Inr []"
| "dots (row # rows) v =
     (case dot row v of
        Inl e \<Rightarrow> Inl e
      | Inr x \<Rightarrow> (case dots rows v of Inl e \<Rightarrow> Inl e | Inr xs \<Rightarrow> Inr (x # xs)))"

text \<open>\<^verbatim>\<open>np.argmax\<close>: the first index of the maximum; \<^verbatim>\<open>ValueError\<close> on an empty array.\<close>

fun argmax_from :: "nat \<Rightarrow> real \<Rightarrow> nat \<Rightarrow> real list \<Rightarrow> nat" where
  "argmax_from best bv i [] = best"
| "argmax_from best bv i (x # xs) =
     (if bv < x then argmax_from i x (Suc i) xs else argmax_from best bv (Suc i) xs)"

definition argmax :: "real list \<Rightarrow> py_error + nat" where
  "argmax xs = (case xs of
                  [] \<Rightarrow> Inl (ValueError ''attempt to get argmax of an empty sequence'')
                | x # rest \<Rightarrow> Inr (argmax_from 0 x 1 rest))"

text \<open>
  The pattern of the \<^verbatim>\<open>re.sub\<close> that strips the section phrase from the prompt:
  \<^verbatim>\<open>r'(?i)problem\s+statement\s*[\-\.\s]*\d+|(?i)ps\s*[\-\.\s]*\d+'\<close>
  Its second \<^verbatim>\<open>(?i)\<close> stands inside the pattern; as for the heading patterns, the flag
  holds for the whole pattern.
\<close>

definition strip_pattern :: regex where
  "strip_pattern =
     Alt (seqs [lit ''problem'', Plus [ISpace], lit ''statement'', Star [ISpace],
                Star [ILit CHR ''-'', ILit CHR ''.'', ISpace], Plus [IDigit]])
         (seqs [lit ''ps'', Star [ISpace],
                Star [ILit CHR ''-'', ILit CHR ''.'', ISpace], Plus [IDigit]])"

text \<open>
  The end of \<^verbatim>\<open>query_section\<close>, from \<^verbatim>\<open>prompt_embedding = model.encode([prompt])\<close> on.
  \<open>encode\<close> is the embedding model on one text and \<open>qa\<close> the question-answering
  pipeline (question, context) giving the \<^verbatim>\<open>answer\<close> field; either may raise.
  \<open>scoped\<close> is \<^verbatim>\<open>problem_num or target_section\<close>.
\<close>

definition answer_from :: "(string \<Rightarrow> py_error + real list) \<Rightarrow> (string \<Rightarrow> string \<Rightarrow> py_error + string)
    \<Rightarrow> (string \<times> real list \<times> meta_dict) list \<Rightarrow> string \<Rightarrow> bool \<Rightarrow> py_error + string" where
  "answer_from encode qa candidates prompt scoped =
     (case encode prompt of
        Inl e \<Rightarrow> Inl e
      | Inr prompt_embedding \<Rightarrow>
     (case dots (map (\<lambda>(c, e, m). e) candidates) prompt_embedding of
        Inl e \<Rightarrow> Inl e
      | Inr similarities \<Rightarrow>
     (case argmax similarities of
        Inl e \<Rightarrow> Inl e
      | Inr best_chunk_idx \<Rightarrow>
          if \<not> best_chunk_idx < length candidates
          then Inl (IndexError ''list index out of range'')
          else
     (case candidates ! best_chunk_idx of (context, emb, meta) \<Rightarrow>
     (case qa prompt context of
        Inl e \<Rightarrow> Inl e
      | Inr answer \<Rightarrow>
          if scoped
          then (let section_info =
                      (case map_of meta ''section'' of
                         None \<Rightarrow> ''Unknown section''
                       | Some None \<Rightarrow> ''None''
                       | Some (Some s) \<Rightarrow> s)
                in Inr (''From '' @ section_info @ '': '' @ answer))
          else Inr answer)))))"

text \<open>
  The unscoped branch pairs \<^verbatim>\<open>chunks\<close>, \<^verbatim>\<open>embeddings\<close> and \<^verbatim>\<open>metadata\<close> by index; the
  best index is one of \<^verbatim>\<open>embeddings\<close>, and \<^verbatim>\<open>chunks[best_chunk_idx]\<close> raises
  \<^verbatim>\<open>IndexError\<close> when \<^verbatim>\<open>chunks\<close> is shorter.
\<close>

definition unscoped_answer :: "(string \<Rightarrow> py_error + real list) \<Rightarrow> (string \<Rightarrow> string \<Rightarrow> py_error + string)
    \<Rightarrow> string list \<Rightarrow> real list list \<Rightarrow> string \<Rightarrow> py_error + string" where
  "unscoped_answer encode qa chunks embeddings prompt =
     (case encode prompt of
        Inl e \<Rightarrow> Inl e
      | Inr prompt_embedding \<Rightarrow>
     (case dots embeddings prompt_embedding of
        Inl e \<Rightarrow> Inl e
      | Inr similarities \<Rightarrow>
     (case argmax similarities of
        Inl e \<Rightarrow> Inl e
      | Inr best_chunk_idx \<Rightarrow>
          if \<not> best_chunk_idx < length chunks
          then Inl (IndexError ''list index out of range'')
          else qa prompt (chunks ! best_chunk_idx))))"

text \<open>
  \<^verbatim>\<open>query_section(chunks, embeddings, metadata, prompt, target_section=None)\<close>.
  The exact tier runs first; the broad tier runs when the exact tier kept nothing; when
  that keeps nothing either the function returns its message.
\<close>

definition query_section :: "(string \<Rightarrow> py_error + real list) \<Rightarrow> (string \<Rightarrow> string \<Rightarrow> py_error + string)
    \<Rightarrow> string list \<Rightarrow> real list list \<Rightarrow> meta_dict list \<Rightarrow> string \<Rightarrow> string option
    \<Rightarrow> py_error + string" where
  "query_section encode qa chunks embeddings metadata prompt target_section =
     (if chunks = [] then Inr ''No document content to search.''
      else
        let problem_num = extract_problem_statement_num_from_query prompt in
        if truthy problem_num \<or> truthy target_section
        then
          (let t = the (target_problem prompt target_section) in
           case tier_loop (exact_match t) chunks embeddings 0 metadata of
             Inl e \<Rightarrow> Inl e
           | Inr exact \<Rightarrow>
          (case (if exact = [] then tier_loop (broad_match t) chunks embeddings 0 metadata
                 else Inr exact) of
             Inl e \<Rightarrow> Inl e
           | Inr filtered \<Rightarrow>
               if filtered = []
               then Inr (''Could not find problem statement '' @ t @ '' in the document.'')
               else
                 (let cleaned_prompt = py_strip (re_sub True strip_pattern [] prompt);
                      prompt' = (if cleaned_prompt \<noteq> [] then cleaned_prompt else prompt)
                  in answer_from encode qa filtered prompt' True)))
        else unscoped_answer encode qa chunks embeddings prompt)"

section \<open>Summarizer\<close>

text \<open>
  The summarisation pipeline and the sentence tokenizer are loaded models: a call may
  succeed or raise, and two calls on the same text need not agree. They are modelled as
  computations over a state \<open>'w\<close> of the world outside the program, which every call
  reads and may change. A computation returns a value or raises, and leaves a world.
\<close>

type_synonym ('w, 'a) comp = "'w \<Rightarrow> (py_error + 'a) \<times> 'w"

definition c_ret :: "'a \<Rightarrow> ('w, 'a) comp" where
  "c_ret x w = (Inr x, w)"

definition c_raise :: "py_error \<Rightarrow> ('w, 'a) comp" where
  "c_raise e w = (Inl e, w)"

text \<open>Sequencing: an exception in the first part skips the second.\<close>

definition c_bind :: "('w, 'a) comp \<Rightarrow> ('a \<Rightarrow> ('w, 'b) comp) \<Rightarrow> ('w, 'b) comp" where
  "c_bind m f w = (case m w of (Inl e, w') \<Rightarrow> (Inl e, w') | (Inr x, w') \<Rightarrow> f x w')"

text \<open>
  \<^verbatim>\<open>try: m  except Exception as e: h(e)\<close>. Every \<^typ>\<open>py_error\<close> is an \<^verbatim>\<open>Exception\<close>, so
  the bare \<^verbatim>\<open>except:\<close> clauses of the source are the same construct.
\<close>

definition c_try :: "('w, 'a) comp \<Rightarrow> (py_error \<Rightarrow> ('w, 'a) comp) \<Rightarrow> ('w, 'a) comp" where
  "c_try m h w = (case m w of (Inl e, w') \<Rightarrow> h e w' | (Inr x, w') \<Rightarrow> (Inr x, w'))"

text \<open>
  The collaborators: \<^verbatim>\<open>summarizer(text, max_length=.., min_length=.., do_sample=False)\<close>,
  which returns a list of records with the key \<open>summary_text\<close>; \<^verbatim>\<open>import nltk\<close>; and
  \<^verbatim>\<open>nltk.sent_tokenize(text)\<close>.
\<close>

type_synonym str_dict = "(string \<times> string) list"

record 'w collab =
  summarizer :: "string \<Rightarrow> int \<Rightarrow> int \<Rightarrow> ('w, str_dict list) comp"
  import_nltk :: "('w, unit) comp"
  sent_tokenize :: "string \<Rightarrow> ('w, string list) comp"

text \<open>
  \<^verbatim>\<open>
  def clean_text_for_summarization(text):
      text = re.sub(r'\s+', ' ', text).strip()
      text = text.replace('\u2022', '*')
      if text and not text.endswith(('.', '!', '?')):
          text += '.'
      return text
  \<close>
  The bullet U+2022 is not a code point below 256, so the replacement changes nothing
  on the strings of this model.
\<close>

definition clean_text_for_summarization :: "string \<Rightarrow> string" where
  "clean_text_for_summarization text =
     (let text = py_strip (re_sub False (Plus [ISpace]) '' '' text) in
      if text \<noteq> [] \<and> \<not> ends_with_terminal text then text @ ''.'' else text)"

text \<open>
  \<^verbatim>\<open>
  def simple_split_sentences(text):
      sentences = re.split(r'(?<=[.!?])\s+', text)
      return [s for s in sentences if len(s.strip()) > 0]
  \<close>
\<close>

definition simple_split_sentences :: "string \<Rightarrow> string list" where
  "simple_split_sentences text =
     filter (\<lambda>s. length (py_strip s) > 0)
       (re_split False
          (Seq (LookBehind [ILit CHR ''.'', ILit CHR ''!'', ILit CHR ''?'']) (Plus [ISpace]))
          text)"

text \<open>
  The selection of \<^verbatim>\<open>extract_key_sentences\<close> once the sentences are known:
  \<^verbatim>\<open>
  if not sentences or len(sentences) <= num_sentences:
      if sentences: return ' '.join(sentences)
      return text[:1000] + "..."
  start = sentences[:max(1, num_sentences//2)]
  middle_idx = len(sentences)//2
  middle = sentences[middle_idx:middle_idx+1]
  end = sentences[-(num_sentences//2 + 1):]
  return ' '.join(start + middle + end)
  \<close>
\<close>

definition select_sentences :: "string \<Rightarrow> nat \<Rightarrow> string list \<Rightarrow> string" where
  "select_sentences text num_sentences sentences =
     (if sentences = [] \<or> length sentences \<le> num_sentences
      then (if sentences \<noteq> [] then py_join '' '' sentences else take 1000 text @ ''...'')
      else
        (let start = take (max 1 (num_sentences div 2)) sentences;
             middle_idx = length sentences div 2;
             middle = py_slice sentences middle_idx (middle_idx + 1);
             end = drop (length sentences - (num_sentences div 2 + 1)) sentences
         in py_join '' '' (start @ middle @ end)))"

text \<open>
  \<^verbatim>\<open>
  try:
      import nltk
      try:
          sentences = nltk.sent_tokenize(text)
      except Exception as e:
          sentences = simple_split_sentences(text)
  except:
      sentences = simple_split_sentences(text)
  \<close>
\<close>

definition extract_key_sentences :: "'w collab \<Rightarrow> string \<Rightarrow> nat \<Rightarrow> ('w, string) comp" where
  "extract_key_sentences coll text num_sentences =
     c_bind
       (c_try
          (c_bind (import_nltk coll)
             (\<lambda>_. c_try (sent_tokenize coll text)
                         (\<lambda>e. c_ret (simple_split_sentences text))))
          (\<lambda>e. c_ret (simple_split_sentences text)))
       (\<lambda>sentences. c_ret (select_sentences text num_sentences sentences))"

text \<open>
  \<^verbatim>\<open>summary[0]['summary_text']\<close>: \<^verbatim>\<open>IndexError\<close> on an empty list, \<^verbatim>\<open>KeyError\<close> on a
  record without the key.
\<close>

definition first_summary :: "str_dict list \<Rightarrow> ('w, string) comp" where
  "first_summary summary =
     (case summary of
        [] \<Rightarrow> c_raise (IndexError ''list index out of range'')
      | d # _ \<Rightarrow> (case map_of d ''summary_text'' of
                    None \<Rightarrow> c_raise (KeyError ''summary_text'')
                  | Some s \<Rightarrow> c_ret s))"

text \<open>
  One window of a long document:
  \<^verbatim>\<open>
  try:
      begin_summary = summarizer(clean_text_for_summarization(begin),
                                 max_length=100, min_length=30, do_sample=False)
      begin_text = begin_summary[0]['summary_text'] if begin_summary else ""
  except:
      begin_text = extract_key_sentences(begin, 2)
  \<close>
\<close>

definition summarize_window :: "'w collab \<Rightarrow> string \<Rightarrow> ('w, string) comp" where
  "summarize_window coll part =
     c_try
       (c_bind (summarizer coll (clean_text_for_summarization part) 100 30)
          (\<lambda>part_summary. if part_summary \<noteq> [] then first_summary part_summary
                           else c_ret []))
       (\<lambda>e. extract_key_sentences coll part 2)"

text \<open>
  The branch \<^verbatim>\<open>total_words > 3000\<close>, with
  \<^verbatim>\<open>middle_start = max(0, (total_words // 2) - 400)\<close> (subtraction on \<^typ>\<open>nat\<close> stops at 0)
  and \<^verbatim>\<open>end = ' '.join(words[-800:])\<close>.
\<close>

definition summarize_large :: "'w collab \<Rightarrow> string \<Rightarrow> string list \<Rightarrow> ('w, string) comp" where
  "summarize_large coll text words =
     (let total_words = length words;
          begin = py_join '' '' (take 800 words);
          middle_start = total_words div 2 - 400;
          middle = py_join '' '' (py_slice words middle_start (middle_start + 800));
          end = py_join '' '' (drop (total_words - 800) words)
      in c_try
           (c_bind (summarize_window coll begin) (\<lambda>begin_text.
            c_bind (summarize_window coll middle) (\<lambda>middle_text.
            c_bind (summarize_window coll end) (\<lambda>end_text.
              (let result = py_strip (begin_text @ '' '' @ middle_text @ '' '' @ end_text)
               in if result \<noteq> [] then c_ret result
                  else c_bind (extract_key_sentences coll text 5)
                         (\<lambda>s. c_ret (''Key points: '' @ s)))))))
           (\<lambda>e. c_bind (extract_key_sentences coll text 5)
                   (\<lambda>s. c_ret (''Document overview: '' @ s))))"

text \<open>The branch \<^verbatim>\<open>total_words > 800\<close>.\<close>

definition summarize_medium :: "'w collab \<Rightarrow> string \<Rightarrow> string list \<Rightarrow> ('w, string) comp" where
  "summarize_medium coll text words =
     (let selected_text = py_join '' '' (take 400 words) @ '' ''
                            @ py_join '' '' (drop (length words - 400) words)
      in c_try
           (c_bind (summarizer coll (clean_text_for_summarization selected_text) 150 30)
              first_summary)
           (\<lambda>e. c_bind (extract_key_sentences coll text 5)
                   (\<lambda>s. c_ret (''Key points: '' @ s))))"

text \<open>The last branch, for 100 to 800 words.\<close>

definition summarize_small :: "'w collab \<Rightarrow> string \<Rightarrow> int \<Rightarrow> ('w, string) comp" where
  "summarize_small coll text max_length =
     c_try
       (c_bind (summarizer coll text (min max_length 150) 30)
          (\<lambda>summary. if summary \<noteq> [] \<and> length summary > 0 then first_summary summary
                      else extract_key_sentences coll text 3))
       (\<lambda>e. extract_key_sentences coll text 3)"

text \<open>
  \<^verbatim>\<open>summarize_document(text, max_length=1024)\<close>. The test on the length is outside the
  \<^verbatim>\<open>try\<close>; inside it \<^verbatim>\<open>text\<close> is first replaced by its cleaned form, which is also the
  \<^verbatim>\<open>text\<close> the outer handlers see.
\<close>

definition summarize_document :: "'w collab \<Rightarrow> string \<Rightarrow> int \<Rightarrow> ('w, string) comp" where
  "summarize_document coll text max_length =
     (if text = [] \<or> length (py_strip text) < 50
      then c_ret ''Document is too short or empty to summarize.''
      else
        (let text = clean_text_for_summarization text;
             words = py_split text;
             total_words = length words
         in c_try
              (if total_words < 100 then c_ret text
               else if total_words > 3000 then summarize_large coll text words
               else if total_words > 800 then summarize_medium coll text words
               else summarize_small coll text max_length)
              (\<lambda>e. c_try
                      (c_bind (extract_key_sentences coll text 5)
                         (\<lambda>s. c_ret (''Key points: '' @ s)))
                      (\<lambda>inner_e. c_ret (''Document preview: '' @ take 500 text @ ''...'')))))"

text \<open>Collaborators that always raise, over a world without state.\<close>

definition failing_collab :: "unit collab" where
  "failing_collab =
     \<lparr>summarizer = (\<lambda>text max_length min_length. c_raise (CollaboratorError ''summarizer'')),
      import_nltk = c_raise (CollaboratorError ''nltk''),
      sent_tokenize = (\<lambda>text. c_raise (CollaboratorError ''punkt''))\<rparr>"

text \<open>A text of forty words and 199 characters.\<close>

definition forty_words :: string where
  "forty_words = py_join '' '' (replicate 40 ''word'')"

section \<open>Validator\<close>

text \<open>\<^verbatim>\<open>model.encode\<close> on a list of texts: one vector per text, in order.\<close>

fun encode_all :: "(string \<Rightarrow> py_error + real list) \<Rightarrow> string list \<Rightarrow> py_error + real list list" where
  "encode_all encode [] = Inr []"
| "encode_all encode (x # xs) =
     (case encode x of
        Inl e \<Rightarrow> Inl e
      | Inr v \<Rightarrow> (case encode_all encode xs of Inl e \<Rightarrow> Inl e | Inr vs \<Rightarrow> Inr (v # vs)))"

text \<open>\<^verbatim>\<open>np.max\<close> and \<^verbatim>\<open>np.mean\<close>; \<^verbatim>\<open>np.max\<close> raises \<^verbatim>\<open>ValueError\<close> on an empty array.\<close>

definition np_max :: "real list \<Rightarrow> py_error + real" where
  "np_max xs = (case xs of
                  [] \<Rightarrow> Inl (ValueError ''zero-size array to reduction operation maximum'')
                | x # rest \<Rightarrow> Inr (fold max rest x))"

definition np_mean :: "real list \<Rightarrow> real" where
  "np_mean xs = sum_list xs / real (length xs)"

text \<open>
  The loop over the sentences of the summary:
  \<^verbatim>\<open>
  for sentence in summary_sentences:
      if len(sentence.split()) < 5: continue
      sentence_embedding = model.encode([sentence])
      sent_similarities = np.dot(chunk_embeddings, sentence_embedding.T).flatten()
      fact_scores.append(float(np.max(sent_similarities)))
  \<close>
\<close>

fun fact_scores_of :: "(string \<Rightarrow> py_error + real list) \<Rightarrow> real list list \<Rightarrow> string list
    \<Rightarrow> py_error + real list" where
  "fact_scores_of encode chunk_embeddings [] = Inr []"
| "fact_scores_of encode chunk_embeddings (sentence # rest) =
     (if length (py_split sentence) < 5 then fact_scores_of encode chunk_embeddings rest
      else
        (case encode sentence of
           Inl e \<Rightarrow> Inl e
         | Inr sentence_embedding \<Rightarrow>
        (case dots chunk_embeddings sentence_embedding of
           Inl e \<Rightarrow> Inl e
         | Inr sent_similarities \<Rightarrow>
        (case np_max sent_similarities of
           Inl e \<Rightarrow> Inl e
         | Inr score \<Rightarrow>
        (case fact_scores_of encode chunk_embeddings rest of
           Inl e \<Rightarrow> Inl e
         | Inr scores \<Rightarrow> Inr (score # scores))))))"

text \<open>
  \<^verbatim>\<open>sum(1 for score in fact_scores if score > threshold) / max(1, len(fact_scores))\<close>
\<close>

definition fact_validity_of :: "real list \<Rightarrow> real \<Rightarrow> real" where
  "fact_validity_of fact_scores threshold =
     real (length (filter (\<lambda>score. score > threshold) fact_scores))
       / real (max 1 (length fact_scores))"

text \<open>
  The record that \<^verbatim>\<open>validate_summary\<close> builds once the scores are known, with the
  \<open>confidence\<close> key set after the others.
\<close>

definition validation_record :: "real \<Rightarrow> real \<Rightarrow> real \<Rightarrow> real \<Rightarrow> py_dict" where
  "validation_record max_similarity avg_similarity fact_validity threshold =
     (let is_valid = (max_similarity \<ge> threshold);
          validation_result =
            [(''valid'', VBool is_valid),
             (''score'', VFloat max_similarity),
             (''avg_score'', VFloat avg_similarity),
             (''fact_validity'', VFloat fact_validity),
             (''message'', VStr (if is_valid
                 then ''Summary is valid and supported by the document.''
                 else ''Summary may contain inaccuracies or unsupported information.''))]
      in dict_set validation_result ''confidence''
           (VStr (if max_similarity > 0.8 then ''High''
                  else if max_similarity > 0.7 then ''Medium''
                  else ''Low'')))"

text \<open>
  The body of the \<^verbatim>\<open>try\<close> of \<^verbatim>\<open>validate_summary\<close>. \<open>encode\<close> is the embedding model on
  one text. A source text without a word has no chunk; the source then raises inside
  \<^verbatim>\<open>np.dot\<close> or \<^verbatim>\<open>np.max\<close>, the model at \<open>np_max\<close>: an exception either way, which
  \<open>validate_summary\<close> catches.
\<close>

definition validate_body :: "(string \<Rightarrow> py_error + real list) \<Rightarrow> string \<Rightarrow> string \<Rightarrow> real
    \<Rightarrow> py_error + py_dict" where
  "validate_body encode summary source_text threshold =
     (case encode summary of
        Inl e \<Rightarrow> Inl e
      | Inr summary_embedding \<Rightarrow>
     (case chunk_text source_text 500 of
        Inl e \<Rightarrow> Inl e
      | Inr source_chunks \<Rightarrow>
     (case encode_all encode source_chunks of
        Inl e \<Rightarrow> Inl e
      | Inr chunk_embeddings \<Rightarrow>
     (case dots chunk_embeddings summary_embedding of
        Inl e \<Rightarrow> Inl e
      | Inr similarities \<Rightarrow>
     (case np_max similarities of
        Inl e \<Rightarrow> Inl e
      | Inr max_similarity \<Rightarrow>
     (case fact_scores_of encode chunk_embeddings (simple_split_sentences summary) of
        Inl e \<Rightarrow> Inl e
      | Inr fact_scores \<Rightarrow>
          Inr (validation_record max_similarity (np_mean similarities)
                 (fact_validity_of fact_scores threshold) threshold)))))))"

text \<open>
  \<^verbatim>\<open>validate_summary(summary, source_text, threshold=0.65)\<close>; \<open>None\<close> is a missing
  argument.
\<close>

definition validate_summary :: "(string \<Rightarrow> py_error + real list) \<Rightarrow> string option \<Rightarrow> string option
    \<Rightarrow> real \<Rightarrow> py_dict" where
  "validate_summary encode summary source_text threshold =
     (if \<not> truthy summary \<or> \<not> truthy source_text
      then [(''valid'', VBool False), (''score'', VFloat 0.0),
            (''message'', VStr ''Missing summary or source content'')]
      else
        (case validate_body encode (the summary) (the source_text) threshold of
           Inr validation_result \<Rightarrow> validation_result
         | Inl e \<Rightarrow>
             [(''valid'', VBool False), (''score'', VFloat 0.0),
              (''message'', VStr (''Error validating summary: '' @ err_str e))]))"

text \<open>The default \<^verbatim>\<open>threshold=0.65\<close>.\<close>

definition default_threshold :: real where
  "default_threshold = 0.65"


section \<open>Verification\<close>

subsection \<open>Strings\<close>

lemma char_lower_alphabets: "map char_lower upper_chars = lower_chars"
  by (simp add: upper_chars_def lower_chars_def)

lemma char_lower_idem_on_lower: "map char_lower lower_chars = lower_chars"
  by (simp add: lower_chars_def)

subsection \<open>Chunker\<close>


lemma py_join_Cons: "ys \<noteq> [] \<Longrightarrow> py_join sep (x # ys) = x @ sep @ py_join sep ys"
  by (cases ys) auto

lemma py_join_append:
  "xs \<noteq> [] \<Longrightarrow> ys \<noteq> [] \<Longrightarrow> py_join sep (xs @ ys) = py_join sep xs @ sep @ py_join sep ys"
proof (induction xs)
  case Nil
  then show ?case by simp
next
  case (Cons x xs)
  show ?case
  proof (cases xs)
    case Nil
    then show ?thesis using Cons.prems by (simp add: py_join_Cons)
  next
    case (Cons a list)
    then show ?thesis using Cons.IH Cons.prems by simp
  qed
qed

lemma suc_div: "0 < (w::nat) \<Longrightarrow> Suc (a div w) = (a + w) div w" by simp

lemma py_range_length: "0 < w \<Longrightarrow> length (py_range i n w) = (n - i + (w - 1)) div w"
proof (induction i n w rule: py_range.induct)
  case (1 i n step)
  show ?case
  proof (cases "i < n")
    case True
    have "length (py_range i n step) = Suc (length (py_range (i + step) n step))"
      using True 1(2) by (simp add: py_range.simps [of i])
    also have "\<dots> = Suc ((n - (i + step) + (step - 1)) div step)"
      using True 1 by simp
    also have "\<dots> = (n - (i + step) + (step - 1) + step) div step"
      by (rule suc_div [OF 1(2)])
    also have "\<dots> = (n - i + (step - 1)) div step"
    proof (cases "i + step < n")
      case True
      then have "n - (i + step) + (step - 1) + step = n - i + (step - 1)" by arith
      then show ?thesis by (simp only:)
    next
      case False
      with \<open>i < n\<close> 1(2) have "(n - (i + step) + (step - 1) + step) div step = 1"
        by (intro div_nat_eqI) auto
      moreover from False \<open>i < n\<close> 1(2) have "(n - i + (step - 1)) div step = 1"
        by (intro div_nat_eqI) auto
      ultimately show ?thesis by simp
    qed
    finally show ?thesis .
  next
    case False
    then show ?thesis using 1(2) by (simp add: py_range.simps [of i])
  qed
qed

lemma chunks_join:
  "0 < w \<Longrightarrow>
   py_join sep (map (\<lambda>j. py_join sep (py_slice ws j (j + w))) (py_range i (length ws) w))
     = py_join sep (drop i ws)"
proof (induction i "length ws" w rule: py_range.induct)
  case (1 i step)
  show ?case
  proof (cases "i < length ws")
    case False
    then show ?thesis by (simp add: py_range.simps [of i])
  next
    case True
    show ?thesis
    proof (cases "i + step < length ws")
      case False
      then have "py_range (i + step) (length ws) step = []" by (simp add: py_range.simps [of "i + step"])
      then show ?thesis using True False 1(2) by (simp add: py_range.simps [of i] py_slice_def)
    next
      case lt: True
      then have ne: "py_range (i + step) (length ws) step \<noteq> []" using 1(2) by (simp add: py_range.simps [of "i + step"])
      have ih: "py_join sep (map (\<lambda>j. py_join sep (py_slice ws j (j + step))) (py_range (i + step) (length ws) step))
        = py_join sep (drop (i + step) ws)" using 1 True by simp
      have "drop i ws = take step (drop i ws) @ drop (i + step) ws"
        by (metis append_take_drop_id drop_drop add.commute)
      moreover have "take step (drop i ws) \<noteq> []" "drop (i + step) ws \<noteq> []" using lt 1(2) by auto
      ultimately have "py_join sep (drop i ws) = py_join sep (take step (drop i ws)) @ sep @ py_join sep (drop (i + step) ws)"
        by (metis py_join_append)
      then show ?thesis using True 1(2) ne ih by (simp add: py_range.simps [of i] py_slice_def py_join_Cons)
    qed
  qed
qed

lemma ceil_nat: "0 < w \<Longrightarrow> int ((n + (w - 1)) div w) = \<lceil>real n / real w\<rceil>"
proof -
  assume w: "0 < w"
  define q where "q = (n + (w - 1)) div w"
  have a: "n \<le> q * w"
  proof -
    have "n + (w - 1) = q * w + (n + (w - 1)) mod w" unfolding q_def by simp
    moreover have "(n + (w - 1)) mod w < w" using w by simp
    ultimately show ?thesis by arith
  qed
  have b: "q * w < n + w"
  proof -
    have "q * w \<le> n + (w - 1)" unfolding q_def by simp
    then show ?thesis using w by arith
  qed
  have "real n \<le> real (q * w)" using a by (simp only: of_nat_le_iff)
  then have "real n / real w \<le> real q" using w
    by (simp add: divide_le_eq)
  moreover have "real q - 1 < real n / real w"
  proof -
    have "real (q * w) < real (n + w)" using b by (simp only: of_nat_less_iff)
    then have "(real q - 1) * real w < real n" by (simp add: algebra_simps)
    then show ?thesis using w by (simp add: less_divide_eq)
  qed
  ultimately have "\<lceil>real n / real w\<rceil> = int q"
    by (intro ceiling_unique) auto
  then show ?thesis by (simp add: q_def)
qed

text \<open>
  C5: for every text \<open>T\<close> and window size \<open>w \<ge> 1\<close>, \<open>chunk_text\<close> returns a list of
  chunks whose join with single spaces is \<open>T\<close>'s word sequence joined with single spaces;
  the number of chunks is the ceiling of the word count divided by \<open>w\<close>; and a text of
  at least one and at most \<open>w\<close> words comes back as one chunk.
\<close>

theorem chunk_text_round_trip:
  assumes "1 \<le> w"
  shows "\<exists>cs. chunk_text T w = Inr cs
           \<and> py_join '' '' cs = py_join '' '' (py_split T)
           \<and> int (length cs) = \<lceil>real (length (py_split T)) / real_of_int w\<rceil>
           \<and> (0 < length (py_split T) \<and> int (length (py_split T)) \<le> w
                \<longrightarrow> cs = [py_join '' '' (py_split T)])"
proof (cases "T = []")
  case True
  then show ?thesis by (simp add: chunk_text_def py_split_def)
next
  case False
  define k where "k = nat w"
  have k: "0 < k" "w = int k" using assms by (simp_all add: k_def)
  define ws where "ws = py_split T"
  define cs where "cs = map (\<lambda>i. py_join '' '' (py_slice ws i (i + k))) (py_range 0 (length ws) k)"
  have c: "chunk_text T w = Inr cs"
    using False k by (simp add: chunk_text_def cs_def ws_def Let_def)
  have j: "py_join '' '' cs = py_join '' '' ws"
    using chunks_join [OF k(1), of "'' ''" ws 0] by (simp add: cs_def)
  have "length cs = (length ws + (k - 1)) div k"
    using py_range_length [OF k(1), of 0 "length ws"] by (simp add: cs_def)
  then have l: "int (length cs) = \<lceil>real (length ws) / real_of_int w\<rceil>"
    using ceil_nat [OF k(1), of "length ws"] k(2) by simp
  have s: "cs = [py_join '' '' ws]" if "0 < length ws" "int (length ws) \<le> w"
  proof -
    from that k have "length ws \<le> k" by simp
    then have "py_range k (length ws) k = []" by (simp add: py_range.simps [of k])
    then show ?thesis using that \<open>length ws \<le> k\<close> k(1)
      by (simp add: cs_def py_range.simps [of 0] py_slice_def)
  qed
  show ?thesis using c j l s by (simp add: ws_def)
qed

theorem chunk_text_round_trip_witness:
  "(1::int) \<le> 2 \<and> chunk_text ''  the quick  brown fox jumps '' 2 = Inr [''the quick'', ''brown fox'', ''jumps'']
    \<and> py_join '' '' [''the quick'', ''brown fox'', ''jumps''] = py_join '' '' (py_split ''  the quick  brown fox jumps '')
    \<and> \<lceil>real (length (py_split ''  the quick  brown fox jumps '')) / real_of_int 2\<rceil> = 3"
proof -
  have e: "chunk_text ''  the quick  brown fox jumps '' 2 = Inr [''the quick'', ''brown fox'', ''jumps'']"
    by code_simp
  show ?thesis using chunk_text_round_trip [of 2 "''  the quick  brown fox jumps ''"] e by simp
qed


subsection \<open>Section detection\<close>


lemma star_runs_length:
  "(p', s') \<in> set (star_runs ic cl p s) \<Longrightarrow> length s' \<le> length s"
  by (induction s arbitrary: p) (auto split: if_splits, fastforce)

lemma rmatch_length:
  "(g', p', s') \<in> set (rmatch ic r (g, p, s)) \<Longrightarrow> length s' \<le> length s"
proof (induction r arbitrary: g p s g' p' s')
  case Eps
  then show ?case by simp
next
  case (Chr cl)
  then show ?case by (auto split: list.splits if_splits)
next
  case (Star cl)
  then show ?case by (auto dest: star_runs_length)
next
  case (Plus cl)
  then show ?case by (auto split: list.splits if_splits dest!: star_runs_length)
next
  case (Seq a b)
  from Seq.prems obtain g1 p1 s1 where
    1: "(g1, p1, s1) \<in> set (rmatch ic a (g, p, s))" and
    2: "(g', p', s') \<in> set (rmatch ic b (g1, p1, s1))"
    by auto
  from Seq.IH(1) [OF 1] Seq.IH(2) [OF 2] show ?case by simp
next
  case (Alt a b)
  then show ?case by auto
next
  case (Group n r)
  then show ?case by auto
next
  case (LookBehind cl)
  then show ?case by (auto split: option.splits if_splits)
qed

lemma first_way_mem: "first_way adv n ws = Some st \<Longrightarrow> st \<in> set ws"
  by (induction adv n ws rule: first_way.induct) (auto split: if_splits)

lemma match_here_length:
  "match_here ic r adv prev s = Some (g, p', s') \<Longrightarrow> length s' \<le> length s"
  unfolding match_here_def by (blast dest: first_way_mem rmatch_length)

lemma search_from_bounds:
  "search_from ic r adv pos prev s = Some (m, p', s') \<Longrightarrow>
     pos \<le> m_start m \<and> m_start m \<le> m_end m \<and> m_end m + length s' = pos + length s"
proof (induction s arbitrary: adv pos prev)
  case Nil
  then show ?case by (auto split: option.splits dest: match_here_length)
next
  case (Cons c cs)
  show ?case
  proof (cases "match_here ic r adv prev (c # cs)")
    case None
    with Cons.prems have "search_from ic r False (Suc pos) (Some c) cs = Some (m, p', s')" by simp
    from Cons.IH [OF this] show ?thesis by simp
  next
    case (Some st)
    obtain g q t where st: "st = (g, q, t)" by (cases st)
    from match_here_length Some st have "length t \<le> length (c # cs)" by blast
    with Cons.prems Some st show ?thesis by (auto simp: Let_def)
  qed
qed

lemma finditer_from_bounds:
  "sorted (map m_start (finditer_from ic r adv pos prev s)) \<and>
   (\<forall>m \<in> set (finditer_from ic r adv pos prev s). pos \<le> m_start m \<and> m_start m \<le> pos + length s)"
proof (induction ic r adv pos prev s rule: finditer_from.induct)
  case (1 ic r adv pos prev s)
  show ?case
  proof (cases "search_from ic r adv pos prev s")
    case None
    then show ?thesis by (simp add: finditer_from.simps [of ic r adv pos prev s])
  next
    case (Some res)
    obtain m p' s' where res: "res = (m, p', s')" by (cases res)
    note b = search_from_bounds [OF Some [unfolded res]]
    show ?thesis
    proof (cases "length s' < length s")
      case True
      have eq: "finditer_from ic r adv pos prev s =
          m # finditer_from ic r (m_end m = m_start m) (m_end m) p' s'"
        using Some res True by (simp add: finditer_from.simps [of ic r adv pos prev s])
      from 1(1) [OF Some [unfolded res] refl refl True]
      have ih: "sorted (map m_start (finditer_from ic r (m_end m = m_start m) (m_end m) p' s'))"
        "\<forall>x \<in> set (finditer_from ic r (m_end m = m_start m) (m_end m) p' s').
            m_end m \<le> m_start x \<and> m_start x \<le> m_end m + length s'"
        by simp_all
      show ?thesis unfolding eq using ih b by (auto simp: )
    next
      case False
      show ?thesis
      proof (cases adv)
        case True
        then have "finditer_from ic r adv pos prev s = [m]"
          using Some res False by (simp add: finditer_from.simps [of ic r True pos prev s])
        then show ?thesis using b by simp
      next
        case nadv: False
        have eq: "finditer_from ic r adv pos prev s = m # finditer_from ic r True pos prev s"
          using Some res False nadv by (simp add: finditer_from.simps [of ic r False pos prev s])
        from 1(2) [OF Some [unfolded res] refl refl False nadv]
        have ih: "sorted (map m_start (finditer_from ic r True pos prev s))"
          "\<forall>x \<in> set (finditer_from ic r True pos prev s).
              pos \<le> m_start x \<and> m_start x \<le> pos + length s"
          by simp_all
        from b False have "m_start m = pos" by arith
        then show ?thesis unfolding eq using ih by auto
      qed
    qed
  qed
qed

lemma re_finditer_sorted: "sorted (map m_start (re_finditer ic r s))"
  unfolding re_finditer_def using finditer_from_bounds by blast

lemma re_finditer_start_le: "m \<in> set (re_finditer ic r s) \<Longrightarrow> m_start m \<le> length s"
  unfolding re_finditer_def using finditer_from_bounds [of ic r False 0 None s] by auto

lemma section_span_heading [simp]:
  "section_span (heading_section text m e) = Some (int (m_start m), int e)"
  by (simp add: section_span_def heading_section_def Let_def)

lemma heading_sections_length [simp]: "length (heading_sections text ms) = length ms"
  by (induction ms) auto

lemma heading_sections_nth:
  "i < length ms \<Longrightarrow>
   section_span (heading_sections text ms ! i) =
     Some (int (m_start (ms ! i)),
           if Suc i < length ms then int (m_start (ms ! Suc i)) else int (length text))"
proof (induction ms arbitrary: i)
  case Nil
  then show ?case by simp
next
  case (Cons m ms)
  show ?case
  proof (cases i)
    case 0
    then show ?thesis by (cases ms) auto
  next
    case (Suc j)
    with Cons.prems have "j < length ms" by simp
    from Cons.IH [OF this] Suc show ?thesis by simp
  qed
qed

lemma heading_sections_covered:
  "ms \<noteq> [] \<Longrightarrow> sorted (map m_start ms) \<Longrightarrow> \<forall>m \<in> set ms. m_start m \<le> length text \<Longrightarrow>
   covered (heading_sections text ms) = {int (m_start (hd ms)) ..< int (length text)}"
proof (induction ms)
  case Nil
  then show ?case by simp
next
  case (Cons m ms)
  show ?case
  proof (cases ms)
    case Nil
    then show ?thesis by (simp add: covered_def)
  next
    case (Cons m' ms')
    with Cons.prems Cons.IH have
      ih: "covered (heading_sections text ms) = {int (m_start m') ..< int (length text)}"
      by simp
    from Cons.prems Cons have le: "m_start m \<le> m_start m'" "m_start m' \<le> length text" by auto
    have "covered (heading_sections text (m # ms)) =
        {int (m_start m) ..< int (m_start m')} \<union> covered (heading_sections text ms)"
      using Cons by (simp add: covered_def)
    also have "\<dots> = {int (m_start m) ..< int (length text)}"
      unfolding ih using le by auto
    finally show ?thesis by simp
  qed
qed



lemma heading_sections_Nil [simp]: "heading_sections text ms = [] \<longleftrightarrow> ms = []"
  by (cases ms) auto

lemma detect_sections_headings:
  "re_finditer True combined_pattern text \<noteq> [] \<Longrightarrow>
   detect_sections text = heading_sections text (re_finditer True combined_pattern text)"
  by (simp add: detect_sections_def Let_def)

text \<open>
  C2, as the code has it: when the heading patterns match \<open>N \<ge> 1\<close> times,
  \<open>detect_sections\<close> returns \<open>N\<close> sections, section \<open>i\<close> starting where match \<open>i\<close>
  starts, in increasing order of start offset; every range is well formed and inside the
  text; each section ends where the next one starts and the last one ends at the end of
  the text; together the ranges cover the offsets from the start of the first heading to
  the end of the text.
\<close>

theorem detect_sections_contiguous:
  assumes "re_finditer True combined_pattern text \<noteq> []"
  shows "length (detect_sections text) = length (re_finditer True combined_pattern text)
    \<and> (\<forall>i < length (detect_sections text).
          sec_start (detect_sections text ! i)
            = Some (int (m_start (re_finditer True combined_pattern text ! i))))
    \<and> sorted (map m_start (re_finditer True combined_pattern text))
    \<and> (\<forall>i < length (detect_sections text).
          \<exists>a b. section_span (detect_sections text ! i) = Some (a, b)
                \<and> 0 \<le> a \<and> a \<le> b \<and> b \<le> int (length text))
    \<and> (\<forall>i. Suc i < length (detect_sections text) \<longrightarrow>
          sec_end (detect_sections text ! i) = sec_start (detect_sections text ! Suc i))
    \<and> sec_end (last (detect_sections text)) = Some (int (length text))
    \<and> covered (detect_sections text)
         = {int (m_start (hd (re_finditer True combined_pattern text))) ..< int (length text)}"
proof -
  define ms where "ms = re_finditer True combined_pattern text"
  have ne: "ms \<noteq> []" using assms by (simp add: ms_def)
  have ds: "detect_sections text = heading_sections text ms"
    using assms by (simp add: detect_sections_headings ms_def)
  have srt: "sorted (map m_start ms)" unfolding ms_def by (rule re_finditer_sorted)
  have le: "\<forall>m \<in> set ms. m_start m \<le> length text"
    unfolding ms_def by (blast intro: re_finditer_start_le)
  have nth: "section_span (heading_sections text ms ! i) =
     Some (int (m_start (ms ! i)),
           if Suc i < length ms then int (m_start (ms ! Suc i)) else int (length text))"
    if "i < length ms" for i using that by (rule heading_sections_nth)
  have mono: "m_start (ms ! i) \<le> m_start (ms ! Suc i)" if "Suc i < length ms" for i
    using srt that by (simp add: sorted_iff_nth_mono)
  have 1: "length (heading_sections text ms) = length ms" by simp
  have 2: "\<forall>i < length ms. sec_start (heading_sections text ms ! i) = Some (int (m_start (ms ! i)))"
    by (simp add: sec_start_def nth)
  have 4: "\<forall>i < length ms. \<exists>a b. section_span (heading_sections text ms ! i) = Some (a, b)
                \<and> 0 \<le> a \<and> a \<le> b \<and> b \<le> int (length text)"
  proof (intro allI impI)
    fix i assume i: "i < length ms"
    have "m_start (ms ! i) \<le> length text" using le i by simp
    moreover have "Suc i < length ms \<Longrightarrow> m_start (ms ! Suc i) \<le> length text" using le by simp
    ultimately show "\<exists>a b. section_span (heading_sections text ms ! i) = Some (a, b)
                \<and> 0 \<le> a \<and> a \<le> b \<and> b \<le> int (length text)"
      using nth [OF i] mono [of i] by simp
  qed
  have 5: "\<forall>i. Suc i < length ms \<longrightarrow>
          sec_end (heading_sections text ms ! i) = sec_start (heading_sections text ms ! Suc i)"
    by (simp add: sec_start_def sec_end_def nth)
  have 6: "sec_end (last (heading_sections text ms)) = Some (int (length text))"
  proof -
    have "last (heading_sections text ms) = heading_sections text ms ! (length ms - 1)"
      using ne by (simp add: last_conv_nth)
    then show ?thesis using ne nth [of "length ms - 1"] by (simp add: sec_end_def)
  qed
  have 7: "covered (heading_sections text ms) = {int (m_start (hd ms)) ..< int (length text)}"
    using ne srt le by (rule heading_sections_covered)
  show ?thesis
    unfolding ds ms_def [symmetric] using 1 2 srt 4 5 6 7 by simp
qed

lemma two_headings_matches: "re_finditer True combined_pattern ''Intro Part 1 x Part 2 y'' =
   [\<lparr>m_start = 6, m_end = 12, m_text = ''Part 1'', m_groups = [(14, ''1''), (13, ''Part 1'')]\<rparr>,
    \<lparr>m_start = 15, m_end = 21, m_text = ''Part 2'', m_groups = [(14, ''2''), (13, ''Part 2'')]\<rparr>]"
  by code_simp

theorem detect_sections_contiguous_witness:
  "re_finditer True combined_pattern ''Intro Part 1 x Part 2 y'' \<noteq> []
   \<and> length (detect_sections ''Intro Part 1 x Part 2 y'') = 2
   \<and> covered (detect_sections ''Intro Part 1 x Part 2 y'') = {6 ..< 23}"
  using detect_sections_contiguous [of "''Intro Part 1 x Part 2 y''"]
  by (simp add: two_headings_matches)

text \<open>
  C2 as stated asks for the ranges to cover the text from offset 0. A text that opens
  with anything but a heading has one section per heading and offset 0 in none of them.
\<close>

theorem detect_sections_cover_counterexample:
  "re_finditer True combined_pattern ''Intro Part 1 x'' \<noteq> []
   \<and> map section_span (detect_sections ''Intro Part 1 x'') = [Some (6, 14)]
   \<and> 0 \<notin> covered (detect_sections ''Intro Part 1 x'')
   \<and> (0::int) \<in> {0 ..< int (length ''Intro Part 1 x'')}"
proof -
  have m: "re_finditer True combined_pattern ''Intro Part 1 x'' =
     [\<lparr>m_start = 6, m_end = 12, m_text = ''Part 1'', m_groups = [(14, ''1''), (13, ''Part 1'')]\<rparr>]"
    by code_simp
  have s: "map section_span (detect_sections ''Intro Part 1 x'') = [Some (6, 14)]"
    by (simp add: detect_sections_def m)
  have c: "covered (detect_sections ''Intro Part 1 x'') = {6 ..< 14}"
    using s by (simp add: covered_def detect_sections_def m)
  show ?thesis using m s c by simp
qed


lemma heading_section_keys:
  "dict_keys (heading_section text m e) =
     [''title'', ''std_title'', ''section_num'', ''start_idx'', ''end_idx'', ''content'']"
  by (simp add: heading_section_def dict_keys_def Let_def)

lemma heading_sections_keys:
  "sec \<in> set (heading_sections text ms) \<Longrightarrow>
   dict_keys sec = [''title'', ''std_title'', ''section_num'', ''start_idx'', ''end_idx'', ''content'']"
  by (induction ms) (auto simp: heading_section_keys)

text \<open>
  C9: a text without a heading match gives exactly one record, with the keys
  \<open>title\<close>, \<open>start_idx\<close>, \<open>end_idx\<close> and \<open>content\<close> only, so that reading its
  \<open>std_title\<close> or \<open>section_num\<close> raises \<open>KeyError\<close>; every record of a text with a
  heading match has both keys.
\<close>

theorem detect_sections_degenerate_record:
  "(re_finditer True combined_pattern text = [] \<longrightarrow>
      detect_sections text =
        [[(''title'', VStr ''Document''), (''start_idx'', VInt 0),
          (''end_idx'', VInt (int (length text))), (''content'', VStr text)]]
      \<and> dict_get (hd (detect_sections text)) ''std_title'' = Inl (KeyError ''std_title'')
      \<and> dict_get (hd (detect_sections text)) ''section_num'' = Inl (KeyError ''section_num''))
   \<and> (re_finditer True combined_pattern text \<noteq> [] \<longrightarrow>
        detect_sections text \<noteq> []
        \<and> (\<forall>sec \<in> set (detect_sections text).
              ''std_title'' \<in> set (dict_keys sec) \<and> ''section_num'' \<in> set (dict_keys sec)))"
proof (cases "re_finditer True combined_pattern text = []")
  case True
  then show ?thesis by (simp add: detect_sections_def dict_get_def)
next
  case False
  then have "detect_sections text = heading_sections text (re_finditer True combined_pattern text)"
    by (rule detect_sections_headings)
  then show ?thesis using False by (auto dest: heading_sections_keys)
qed

lemma no_heading_matches: "re_finditer True combined_pattern ''no headings here'' = []"
  by code_simp

lemma one_heading_matches: "re_finditer True combined_pattern ''Part 1 x'' =
     [\<lparr>m_start = 0, m_end = 6, m_text = ''Part 1'', m_groups = [(14, ''1''), (13, ''Part 1'')]\<rparr>]"
  by code_simp

theorem detect_sections_degenerate_record_witness:
  "re_finditer True combined_pattern ''no headings here'' = []
   \<and> detect_sections ''no headings here'' =
        [[(''title'', VStr ''Document''), (''start_idx'', VInt 0),
          (''end_idx'', VInt 16), (''content'', VStr ''no headings here'')]]
   \<and> dict_get (hd (detect_sections ''no headings here'')) ''std_title'' = Inl (KeyError ''std_title'')
   \<and> re_finditer True combined_pattern ''Part 1 x'' \<noteq> []
   \<and> detect_sections ''Part 1 x'' \<noteq> []
   \<and> list_all (\<lambda>sec. ''std_title'' \<in> set (dict_keys sec) \<and> ''section_num'' \<in> set (dict_keys sec))
        (detect_sections ''Part 1 x'')"
  using detect_sections_degenerate_record [of "''no headings here''"]
        detect_sections_degenerate_record [of "''Part 1 x''"]
  by (simp add: no_heading_matches one_heading_matches dict_get_def list_all_iff)







subsection \<open>Section-scoped retrieval\<close>


lemma tier_loop_none:
  "\<forall>meta \<in> set metadata. test meta = Inr False \<Longrightarrow>
   tier_loop test chunks embeddings i metadata = Inr []"
  by (induction metadata arbitrary: i) auto

text \<open>
  C1, as the code has it: when a target is in effect and neither the exact tier nor the
  broad tier selects a record, \<open>query_section\<close> returns the message that the problem
  statement could not be found; it does not search the unfiltered chunks.
\<close>

theorem query_section_no_tier_match:
  assumes "chunks \<noteq> []"
    and "truthy (extract_problem_statement_num_from_query prompt) \<or> truthy target_section"
    and "target_problem prompt target_section = Some t"
    and "\<forall>meta \<in> set metadata. exact_match t meta = Inr False \<and> broad_match t meta = Inr False"
  shows "query_section encode qa chunks embeddings metadata prompt target_section
           = Inr (''Could not find problem statement '' @ t @ '' in the document.'')"
proof -
  have e: "tier_loop (exact_match t) chunks embeddings 0 metadata = Inr []"
    using assms(4) by (intro tier_loop_none) simp
  have b: "tier_loop (broad_match t) chunks embeddings 0 metadata = Inr []"
    using assms(4) by (intro tier_loop_none) simp
  show ?thesis
    using assms(1,2,3) by (simp add: query_section_def Let_def e b)
qed

lemma plain_prompt_no_id:
  "extract_problem_statement_num_from_query ''what is this about'' = None"
  by code_simp

lemma document_meta_no_match:
  "exact_match ''2'' [(''section'', Some ''Document''), (''section_content'', Some ''hello world'')] = Inr False
   \<and> broad_match ''2'' [(''section'', Some ''Document''), (''section_content'', Some ''hello world'')] = Inr False"
  by code_simp

theorem query_section_no_tier_match_witness:
  "[''hello world''] \<noteq> []
   \<and> truthy (Some ''2'')
   \<and> target_problem ''what is this about'' (Some ''2'') = Some ''2''
   \<and> query_section (\<lambda>s. Inr [1]) (\<lambda>q c. Inr c) [''hello world''] [[1]]
        [[(''section'', Some ''Document''), (''section_content'', Some ''hello world'')]]
        ''what is this about'' (Some ''2'')
      = Inr ''Could not find problem statement 2 in the document.''"
proof -
  have t: "target_problem ''what is this about'' (Some ''2'') = Some ''2''"
    by (simp add: target_problem_def py_or_def plain_prompt_no_id)
  show ?thesis
    using query_section_no_tier_match [of "[''hello world'']" "''what is this about''" "Some ''2''" "''2''"
        "[[(''section'', Some ''Document''), (''section_content'', Some ''hello world'')]]"
        "\<lambda>s. Inr [1]" "\<lambda>q c. Inr c" "[[1]]"] t document_meta_no_match
    by simp
qed

text \<open>
  C1 as stated: a one-chunk document whose only section is titled \<open>Document\<close>, asked
  with target section \<open>2\<close>. No tier selects the chunk, and the result is the failure
  message, not the answer that a search of the unfiltered chunk gives.
\<close>

theorem query_section_fallback_counterexample:
  "query_section (\<lambda>s. Inr [1]) (\<lambda>q c. Inr c) [''hello world''] [[1]]
        [[(''section'', Some ''Document''), (''section_content'', Some ''hello world'')]]
        ''what is this about'' (Some ''2'')
      = Inr ''Could not find problem statement 2 in the document.''
   \<and> unscoped_answer (\<lambda>s. Inr [1]) (\<lambda>q c. Inr c) [''hello world''] [[1]] ''what is this about''
      = Inr ''hello world''"
proof -
  have t: "target_problem ''what is this about'' (Some ''2'') = Some ''2''"
    by (simp add: target_problem_def py_or_def plain_prompt_no_id)
  have e: "tier_loop (exact_match ''2'') [''hello world''] [[1]] 0
       [[(''section'', Some ''Document''), (''section_content'', Some ''hello world'')]] = Inr []"
    using document_meta_no_match by simp
  have b: "tier_loop (broad_match ''2'') [''hello world''] [[1]] 0
       [[(''section'', Some ''Document''), (''section_content'', Some ''hello world'')]] = Inr []"
    using document_meta_no_match by simp
  have 1: "query_section (\<lambda>s. Inr [1]) (\<lambda>q c. Inr c) [''hello world''] [[1]]
        [[(''section'', Some ''Document''), (''section_content'', Some ''hello world'')]]
        ''what is this about'' (Some ''2'')
      = Inr ''Could not find problem statement 2 in the document.''"
    by (simp add: query_section_def Let_def t e b plain_prompt_no_id del: tier_loop.simps)
  have 2: "unscoped_answer (\<lambda>s. Inr [1]) (\<lambda>q c. Inr c) [''hello world''] [[1]] ''what is this about''
      = Inr ''hello world''"
    by (simp add: unscoped_answer_def dot_def argmax_def)
  show ?thesis using 1 2 by simp
qed






subsection \<open>Summarizer\<close>


lemma c_ret_returns: "\<exists>x w'. c_ret v w = (Inr x, w')"
  by (simp add: c_ret_def)

lemma c_bind_returns:
  assumes "\<And>w. \<exists>x w'. m w = (Inr x, w')"
    and "\<And>x w. \<exists>y w'. f x w = (Inr y, w')"
  shows "\<exists>y w'. c_bind m f w = (Inr y, w')"
proof -
  from assms(1) obtain x w1 where "m w = (Inr x, w1)" by blast
  moreover from assms(2) obtain y w2 where "f x w1 = (Inr y, w2)" by blast
  ultimately show ?thesis by (simp add: c_bind_def)
qed

lemma c_try_returns:
  assumes "\<And>e w. \<exists>x w'. h e w = (Inr x, w')"
  shows "\<exists>x w'. c_try m h w = (Inr x, w')"
proof (cases "m w")
  case (Pair r w1)
  show ?thesis
  proof (cases r)
    case (Inl e)
    from assms obtain x w2 where "h e w1 = (Inr x, w2)" by blast
    with Pair Inl show ?thesis by (simp add: c_try_def)
  next
    case (Inr x)
    with Pair show ?thesis by (simp add: c_try_def)
  qed
qed

lemma extract_key_sentences_returns:
  "\<exists>s w'. extract_key_sentences coll text n w = (Inr s, w')"
  unfolding extract_key_sentences_def
  by (intro c_bind_returns c_try_returns c_ret_returns)

lemma key_points_returns:
  "\<exists>s w'. c_bind (extract_key_sentences coll text n) (\<lambda>s. c_ret (pre @ s)) w = (Inr s, w')"
  by (intro c_bind_returns extract_key_sentences_returns c_ret_returns)

lemma summarize_large_returns:
  "\<exists>s w'. summarize_large coll text words w = (Inr s, w')"
  unfolding summarize_large_def Let_def
  by (intro c_try_returns key_points_returns)

lemma summarize_medium_returns:
  "\<exists>s w'. summarize_medium coll text words w = (Inr s, w')"
  unfolding summarize_medium_def Let_def
  by (intro c_try_returns key_points_returns)

lemma summarize_small_returns:
  "\<exists>s w'. summarize_small coll text max_length w = (Inr s, w')"
  unfolding summarize_small_def
  by (intro c_try_returns extract_key_sentences_returns)

text \<open>
  C7: for every text, every \<open>max_length\<close>, every behaviour of the summarisation pipeline
  and of the sentence tokenizer (each call may return anything or raise, whatever the
  calls before it did) and every state of the world, \<open>summarize_document\<close> returns a
  string and raises nothing.
\<close>

theorem summarize_document_never_raises:
  "\<exists>s w'. summarize_document coll text max_length w = (Inr s, w')"
proof (cases "text = [] \<or> length (py_strip text) < 50")
  case True
  then show ?thesis by (simp add: summarize_document_def c_ret_def)
next
  case False
  have "\<exists>s w'. c_try m
          (\<lambda>e. c_try (c_bind (extract_key_sentences coll t 5) (\<lambda>s. c_ret (''Key points: '' @ s)))
                  (\<lambda>inner_e. c_ret (''Document preview: '' @ take 500 t @ ''...''))) w = (Inr s, w')"
    for m :: "('a, string) comp" and t
    by (intro c_try_returns c_ret_returns)
  then show ?thesis using False by (simp add: summarize_document_def Let_def)
qed

lemma forty_words_eval:
  "py_strip forty_words = forty_words
   \<and> length forty_words = 199
   \<and> clean_text_for_summarization forty_words = forty_words @ ''.''
   \<and> length (py_split (forty_words @ ''.'')) = 40"
  by code_simp

text \<open>
  C8, as the code has it: the test is on the number of characters of the stripped text.
  A text that is empty or has fewer than 50 characters after stripping gets the fixed
  message; a text of 50 or more characters and fewer than 100 words (after cleaning) is
  returned in its cleaned form.
\<close>

theorem summarize_document_too_short:
  "(text = [] \<or> length (py_strip text) < 50 \<longrightarrow>
      summarize_document coll text max_length w
        = (Inr ''Document is too short or empty to summarize.'', w))
   \<and> (text \<noteq> [] \<and> 50 \<le> length (py_strip text)
        \<and> length (py_split (clean_text_for_summarization text)) < 100 \<longrightarrow>
      summarize_document coll text max_length w
        = (Inr (clean_text_for_summarization text), w))"
  by (auto simp: summarize_document_def Let_def c_ret_def c_try_def)

theorem summarize_document_too_short_witness:
  "length (py_strip ''short text.'') < 50
   \<and> summarize_document failing_collab ''short text.'' 1024 ()
        = (Inr ''Document is too short or empty to summarize.'', ())
   \<and> forty_words \<noteq> [] \<and> 50 \<le> length (py_strip forty_words)
   \<and> length (py_split (clean_text_for_summarization forty_words)) < 100
   \<and> summarize_document failing_collab forty_words 1024 () = (Inr (forty_words @ ''.''), ())"
proof -
  have a: "length (py_strip ''short text.'') = 11" by code_simp
  have b: "forty_words \<noteq> []" using forty_words_eval by auto
  show ?thesis
    using summarize_document_too_short [of "''short text.''" failing_collab 1024 "()"]
          summarize_document_too_short [of forty_words failing_collab 1024 "()"]
          a b forty_words_eval
    by simp
qed

text \<open>
  C8 as stated: a text of forty words (199 characters) does not get the fixed message;
  it comes back cleaned, with a full stop added.
\<close>

theorem summarize_document_forty_words_counterexample:
  "length (py_split forty_words) = 40
   \<and> summarize_document failing_collab forty_words 1024 () = (Inr (forty_words @ ''.''), ())
   \<and> forty_words @ ''.'' \<noteq> ''Document is too short or empty to summarize.''"
proof -
  have n: "length (py_split forty_words) = 40" by code_simp
  have ne: "forty_words \<noteq> []" using forty_words_eval by auto
  have r: "summarize_document failing_collab forty_words 1024 () = (Inr (forty_words @ ''.''), ())"
    using forty_words_eval ne by (simp add: summarize_document_def Let_def c_ret_def c_try_def)
  have d: "forty_words @ ''.'' \<noteq> ''Document is too short or empty to summarize.''"
  proof
    assume "forty_words @ ''.'' = ''Document is too short or empty to summarize.''"
    then have "length (forty_words @ ''.'') = length ''Document is too short or empty to summarize.''"
      by (rule arg_cong)
    then show False using forty_words_eval by simp
  qed
  show ?thesis using n r d by simp
qed


subsection \<open>Validator\<close>


lemma fact_scores_none:
  "\<forall>s \<in> set sentences. length (py_split s) < 5 \<Longrightarrow>
   fact_scores_of encode chunk_embeddings sentences = Inr []"
  by (induction sentences) auto

lemma validation_record_keys:
  "dict_keys (validation_record m a f t) =
     [''valid'', ''score'', ''avg_score'', ''fact_validity'', ''message'', ''confidence'']"
  by (simp add: validation_record_def dict_keys_def dict_set_def Let_def)

lemma validation_record_fact_validity:
  "map_of (validation_record m a f t) ''fact_validity'' = Some (VFloat f)"
  by (simp add: validation_record_def dict_set_def Let_def)

lemma validate_body_record:
  "validate_body encode summary source_text threshold = Inr d \<Longrightarrow>
   \<exists>m a fs. fact_scores_of encode
               (case encode_all encode (case chunk_text source_text 500 of Inr cs \<Rightarrow> cs) of Inr es \<Rightarrow> es)
               (simple_split_sentences summary) = Inr fs
     \<and> d = validation_record m a (fact_validity_of fs threshold) threshold"
  by (auto simp: validate_body_def split: sum.splits)

text \<open>
  C3, as the code has it: when no sentence of the summary has five words or more, a
  result that carries \<open>fact_validity\<close> carries the value 0.
\<close>

theorem validate_summary_no_scored_sentence:
  assumes "\<forall>s \<in> set (simple_split_sentences summary). length (py_split s) < 5"
    and "''fact_validity'' \<in> set (dict_keys (validate_summary encode (Some summary) (Some source_text) threshold))"
  shows "map_of (validate_summary encode (Some summary) (Some source_text) threshold) ''fact_validity''
           = Some (VFloat 0)"
proof (cases "summary = [] \<or> source_text = []")
  case True
  with assms(2) show ?thesis by (auto simp: validate_summary_def dict_keys_def)
next
  case False
  show ?thesis
  proof (cases "validate_body encode summary source_text threshold")
    case (Inl e)
    with assms(2) False show ?thesis by (simp add: validate_summary_def dict_keys_def)
  next
    case (Inr d)
    from validate_body_record [OF Inr] obtain m a fs where
      fs: "fact_scores_of encode
               (case encode_all encode (case chunk_text source_text 500 of Inr cs \<Rightarrow> cs) of Inr es \<Rightarrow> es)
               (simple_split_sentences summary) = Inr fs"
      and d: "d = validation_record m a (fact_validity_of fs threshold) threshold"
      by blast
    from fs fact_scores_none [OF assms(1)] have "fs = []" by simp
    then have "fact_validity_of fs threshold = 0" by (simp add: fact_validity_of_def)
    with d have "map_of d ''fact_validity'' = Some (VFloat 0)"
      by (simp add: validation_record_fact_validity)
    with Inr False show ?thesis by (simp add: validate_summary_def)
  qed
qed

lemma short_summary_eval:
  "simple_split_sentences ''Hi there.'' = [''Hi there.'']
   \<and> length (py_split ''Hi there.'') = 2
   \<and> chunk_text ''anything'' 500 = Inr [''anything'']"
  by code_simp

lemma short_summary_result:
  "validate_summary (\<lambda>s. Inr [1]) (Some ''Hi there.'') (Some ''anything'') default_threshold =
     [(''valid'', VBool True), (''score'', VFloat 1), (''avg_score'', VFloat 1),
      (''fact_validity'', VFloat 0),
      (''message'', VStr ''Summary is valid and supported by the document.''),
      (''confidence'', VStr ''High'')]"
  using short_summary_eval
  by (simp add: validate_summary_def validate_body_def dot_def np_max_def np_mean_def
      fact_validity_of_def validation_record_def dict_set_def Let_def default_threshold_def)

theorem validate_summary_no_scored_sentence_witness:
  "list_all (\<lambda>s. length (py_split s) < 5) (simple_split_sentences ''Hi there.'')
   \<and> simple_split_sentences ''Hi there.'' \<noteq> []
   \<and> ''fact_validity'' \<in> set (dict_keys (validate_summary (\<lambda>s. Inr [1]) (Some ''Hi there.'') (Some ''anything'') default_threshold))
   \<and> map_of (validate_summary (\<lambda>s. Inr [1]) (Some ''Hi there.'') (Some ''anything'') default_threshold) ''fact_validity''
        = Some (VFloat 0)"
proof -
  have a: "\<forall>s \<in> set (simple_split_sentences ''Hi there.''). length (py_split s) < 5"
    using short_summary_eval by simp
  have b: "''fact_validity'' \<in> set (dict_keys (validate_summary (\<lambda>s. Inr [1]) (Some ''Hi there.'') (Some ''anything'') default_threshold))"
    by (simp add: short_summary_result dict_keys_def)
  from validate_summary_no_scored_sentence [OF a b] a b short_summary_eval
  show ?thesis by (simp add: list_all_iff)
qed

text \<open>
  C3 as stated: the summary \<open>Hi there.\<close> has one sentence, of two words; validated
  against a source that supports it fully, its \<open>fact_validity\<close> is 0 and not 1.
\<close>

theorem validate_summary_fact_validity_counterexample:
  "list_all (\<lambda>s. length (py_split s) < 5) (simple_split_sentences ''Hi there.'')
   \<and> map_of (validate_summary (\<lambda>s. Inr [1]) (Some ''Hi there.'') (Some ''anything'') default_threshold)
        ''fact_validity'' = Some (VFloat 0)
   \<and> VFloat 0 \<noteq> VFloat 1"
  using short_summary_eval by (simp add: short_summary_result)

text \<open>
  C10: when the summary or the source text is missing or empty, or the body of the
  \<open>try\<close> raises, the result has exactly the keys \<open>valid\<close>, \<open>score\<close> and \<open>message\<close>, with
  \<open>valid\<close> false and \<open>score\<close> 0; every other result has the six keys \<open>valid\<close>, \<open>score\<close>,
  \<open>avg_score\<close>, \<open>fact_validity\<close>, \<open>message\<close> and \<open>confidence\<close>.
\<close>

theorem validate_summary_fail_closed:
  "((\<not> truthy summary \<or> \<not> truthy source_text
      \<or> (\<exists>e. validate_body encode (the summary) (the source_text) threshold = Inl e)) \<longrightarrow>
      dict_keys (validate_summary encode summary source_text threshold)
        = [''valid'', ''score'', ''message'']
      \<and> map_of (validate_summary encode summary source_text threshold) ''valid'' = Some (VBool False)
      \<and> map_of (validate_summary encode summary source_text threshold) ''score'' = Some (VFloat 0))
   \<and> (truthy summary \<and> truthy source_text
        \<and> (\<exists>d. validate_body encode (the summary) (the source_text) threshold = Inr d) \<longrightarrow>
      dict_keys (validate_summary encode summary source_text threshold)
        = [''valid'', ''score'', ''avg_score'', ''fact_validity'', ''message'', ''confidence''])"
proof (intro conjI impI)
  assume "truthy summary \<and> truthy source_text
        \<and> (\<exists>d. validate_body encode (the summary) (the source_text) threshold = Inr d)"
  then obtain d where t: "truthy summary" "truthy source_text"
    and d: "validate_body encode (the summary) (the source_text) threshold = Inr d" by blast
  from validate_body_record [OF d] obtain m a f where "d = validation_record m a f threshold"
    by blast
  then show "dict_keys (validate_summary encode summary source_text threshold)
        = [''valid'', ''score'', ''avg_score'', ''fact_validity'', ''message'', ''confidence'']"
    using t d by (simp add: validate_summary_def validation_record_keys)
next
  assume f: "\<not> truthy summary \<or> \<not> truthy source_text
      \<or> (\<exists>e. validate_body encode (the summary) (the source_text) threshold = Inl e)"
  then show "dict_keys (validate_summary encode summary source_text threshold)
        = [''valid'', ''score'', ''message'']"
    by (auto simp: validate_summary_def dict_keys_def)
  from f show "map_of (validate_summary encode summary source_text threshold) ''valid'' = Some (VBool False)"
    by (auto simp: validate_summary_def)
  from f show "map_of (validate_summary encode summary source_text threshold) ''score'' = Some (VFloat 0)"
    by (auto simp: validate_summary_def)
qed

lemma blank_source_raises:
  "validate_body (\<lambda>s. Inr [1]) ''Hi there.'' '' '' default_threshold
     = Inl (ValueError ''zero-size array to reduction operation maximum'')"
proof -
  have "chunk_text '' '' 500 = Inr []" by code_simp
  then show ?thesis by (simp add: validate_body_def np_max_def)
qed

theorem validate_summary_fail_closed_witness:
  "\<not> truthy (Some [])
   \<and> dict_keys (validate_summary (\<lambda>s. Inr [1]) (Some []) (Some ''anything'') default_threshold)
        = [''valid'', ''score'', ''message'']
   \<and> \<not> truthy None
   \<and> dict_keys (validate_summary (\<lambda>s. Inr [1]) (Some ''Hi there.'') None default_threshold)
        = [''valid'', ''score'', ''message'']
   \<and> (\<exists>e. validate_body (\<lambda>s. Inr [1]) ''Hi there.'' '' '' default_threshold = Inl e)
   \<and> dict_keys (validate_summary (\<lambda>s. Inr [1]) (Some ''Hi there.'') (Some '' '') default_threshold)
        = [''valid'', ''score'', ''message'']
   \<and> (\<exists>d. validate_body (\<lambda>s. Inr [1]) ''Hi there.'' ''anything'' default_threshold = Inr d)
   \<and> dict_keys (validate_summary (\<lambda>s. Inr [1]) (Some ''Hi there.'') (Some ''anything'') default_threshold)
        = [''valid'', ''score'', ''avg_score'', ''fact_validity'', ''message'', ''confidence'']"
proof -
  have ok: "\<exists>d. validate_body (\<lambda>s. Inr [1]) ''Hi there.'' ''anything'' default_threshold = Inr d"
    using short_summary_eval
    by (simp add: validate_body_def dot_def np_max_def)
  show ?thesis
    using validate_summary_fail_closed [of "Some []" "Some ''anything''" "\<lambda>s. Inr [1]" default_threshold]
          validate_summary_fail_closed [of "Some ''Hi there.''" None "\<lambda>s. Inr [1]" default_threshold]
          validate_summary_fail_closed [of "Some ''Hi there.''" "Some '' ''" "\<lambda>s. Inr [1]" default_threshold]
          validate_summary_fail_closed [of "Some ''Hi there.''" "Some ''anything''" "\<lambda>s. Inr [1]" default_threshold]
          blank_source_raises ok
    by simp
qed


end
